theory Spec2Isabelle
  imports Complex_Main
begin

text \<open>
  A shallow embedding of the dual-store query layer of the compensation data service: the
  filter translator and the fallback router of the GraphQL resolvers, the record transformer,
  the bulk synchronization loop and the change subscriber of the streamer. Functions keep the
  names they have in the JavaScript source. The two stores are outside the program: their
  answers are parameters of the functions that call them, a thrown error is a left injection,
  and the calls a function makes are part of its result.
\<close>

section \<open>Data model\<close>

text \<open>
  Values that travel as SQL parameters and as leaves of the search-engine query. Money is
  kept in integer cents, experience and quality scores are decimals, timestamps are
  instants on an integer time line.
\<close>

datatype val = VNum rat | VStr string | VBool bool

text \<open>
  A money column as the JavaScript value the code reads. In the JSON snapshot of a change
  notification it is a number; in a row returned by \<open>pool.query\<close> the database driver
  delivers a BIGINT column as its decimal text. Both stand for an integer amount of cents.
\<close>

datatype money = AsNumber int | AsText int

fun cents :: "money \<Rightarrow> int" where
  "cents (AsNumber n) = n"
| "cents (AsText n) = n"

text \<open>
  One row of \<open>compensation_data\<close>, with the columns the resolvers and the streamer read.
  A column that is SQL NULL (or a property that is absent) is \<open>None\<close>.
\<close>

record compensation_record =
  id :: string
  employer :: "string option"
  job_title :: "string option"
  location :: "string option"
  industry :: "string option"
  gender :: "string option"
  annual_base_pay :: "money option"
  annual_bonus :: "money option"
  stock_value :: "money option"
  years_experience_industry :: "rat option"
  years_experience_company :: "rat option"
  timestamp :: "int option"
  health_insurance_offered :: "bool option"
  data_quality_score :: "rat option"
  created_at :: "int option"

text \<open>A row with a key and nothing else, from which the scenarios build their rows.\<close>

definition blank_record :: compensation_record where
  "blank_record =
     \<lparr>id = ''k1'', employer = None, job_title = None, location = None, industry = None,
      gender = None, annual_base_pay = None, annual_bonus = None, stock_value = None,
      years_experience_industry = None, years_experience_company = None, timestamp = None,
      health_insurance_offered = None, data_quality_score = None, created_at = None\<rparr>"

text \<open>GraphQL inputs: \<open>BigIntRange\<close> / \<open>FloatRange\<close>, \<open>CompensationFilter\<close>,
  \<open>CompensationSort\<close>, \<open>PaginationInput\<close>. \<open>None\<close> is an absent (undefined) slot.\<close>

record 'a range_input =
  rmin :: "'a option"
  rmax :: "'a option"

record compensation_filter =
  f_employer :: "string option"
  jobTitleContains :: "string option"
  locationContains :: "string option"
  f_industry :: "string option"
  f_gender :: "string option"
  annualBasePay :: "int range_input option"
  yearsExperienceIndustry :: "rat range_input option"
  timestampAfter :: "int option"
  timestampBefore :: "int option"
  healthInsuranceOffered :: "bool option"
  dataQualityScoreMin :: "rat option"

record sort_item =
  field :: string
  direction :: string

record pagination =
  limit :: "int option"
  offset :: "int option"

section \<open>Filter translator\<close>

subsection \<open>JavaScript truthiness\<close>

text \<open>\<open>x || d\<close> on an optional number: undefined and \<open>0\<close> are falsy.\<close>

definition num_or :: "int option \<Rightarrow> int \<Rightarrow> int" where
  "num_or x d = (case x of None \<Rightarrow> d | Some n \<Rightarrow> if n = 0 then d else n)"

text \<open>\<open>if (s)\<close> on an optional string is false for undefined and for the empty
  string; the translators below test it where they read a text slot.\<close>

subsection \<open>Pagination\<close>

text \<open>\<open>Math.min(pagination?.limit || 20, 100)\<close> and \<open>pagination?.offset || 0\<close>.\<close>

definition page_limit :: "pagination option \<Rightarrow> int" where
  "page_limit p = min (num_or (Option.bind p limit) 20) 100"

definition page_offset :: "pagination option \<Rightarrow> int" where
  "page_offset p = num_or (Option.bind p offset) 0"

subsection \<open>Relational WHERE clause\<close>

text \<open>
  A condition \<open>column op $i\<close>; the clause is the conjunction of the conditions in order
  (the empty list is the empty clause), the parameters are positional.
\<close>

datatype sql_op = ILIKE | EQ | GE | LE

record sql_cond =
  column :: string
  op :: sql_op
  param :: nat

type_synonym where_state = "sql_cond list \<times> val list"

text \<open>\<open>conditions.push(...); params.push(v); paramIndex++\<close>. The parameter index is
  always one more than the number of parameters pushed so far.\<close>

definition push_cond :: "string \<Rightarrow> sql_op \<Rightarrow> val \<Rightarrow> where_state \<Rightarrow> where_state" where
  "push_cond c opr v st =
     (case st of (conds, params) \<Rightarrow>
        (conds @ [\<lparr>column = c, op = opr, param = Suc (length params)\<rparr>], params @ [v]))"

text \<open>\<open>if (filter.x) { push(column op $i, f(filter.x)) }\<close> for a string slot.\<close>

definition push_str ::
  "string \<Rightarrow> sql_op \<Rightarrow> (string \<Rightarrow> val) \<Rightarrow> string option \<Rightarrow> where_state \<Rightarrow> where_state" where
  "push_str c opr mk x st =
     (case x of None \<Rightarrow> st | Some s \<Rightarrow> if s \<noteq> [] then push_cond c opr (mk s) st else st)"

definition push_opt :: "string \<Rightarrow> sql_op \<Rightarrow> val option \<Rightarrow> where_state \<Rightarrow> where_state" where
  "push_opt c opr v st = (case v of None \<Rightarrow> st | Some x \<Rightarrow> push_cond c opr x st)"

definition pattern :: "string \<Rightarrow> val" where
  "pattern s = VStr (''%'' @ s @ ''%'')"

definition push_range ::
  "string \<Rightarrow> ('a \<Rightarrow> val) \<Rightarrow> 'a range_input option \<Rightarrow> where_state \<Rightarrow> where_state" where
  "push_range c cv r st =
     (case r of None \<Rightarrow> st
      | Some rg \<Rightarrow> push_opt c LE (map_option cv (rmax rg))
                    (push_opt c GE (map_option cv (rmin rg)) st))"

definition vint :: "int \<Rightarrow> val" where
  "vint n = VNum (of_int n)"

definition buildWhereClause :: "compensation_filter option \<Rightarrow> where_state" where
  "buildWhereClause flt =
     (case flt of None \<Rightarrow> ([], [])
      | Some f \<Rightarrow>
         push_opt ''data_quality_score'' GE (map_option VNum (dataQualityScoreMin f))
        (push_opt ''health_insurance_offered'' EQ (map_option VBool (healthInsuranceOffered f))
        (push_opt ''timestamp'' LE (map_option vint (timestampBefore f))
        (push_opt ''timestamp'' GE (map_option vint (timestampAfter f))
        (push_range ''years_experience_industry'' VNum (yearsExperienceIndustry f)
        (push_range ''annual_base_pay'' vint (annualBasePay f)
        (push_str ''gender'' ILIKE VStr (f_gender f)
        (push_str ''industry'' EQ VStr (f_industry f)
        (push_str ''location'' ILIKE pattern (locationContains f)
        (push_str ''job_title'' ILIKE pattern (jobTitleContains f)
        (push_str ''employer'' ILIKE pattern (f_employer f)
        ([], []))))))))))))"

subsection \<open>ORDER BY clause\<close>

definition order_column :: "string \<Rightarrow> string" where
  "order_column fld =
     (if fld = ''TIMESTAMP'' then ''timestamp''
      else if fld = ''ANNUAL_BASE_PAY'' then ''annual_base_pay''
      else if fld = ''ANNUAL_BONUS'' then ''annual_bonus''
      else if fld = ''YEARS_EXPERIENCE_INDUSTRY'' then ''years_experience_industry''
      else if fld = ''YEARS_EXPERIENCE_COMPANY'' then ''years_experience_company''
      else if fld = ''CREATED_AT'' then ''created_at''
      else ''created_at'')"

text \<open>Each item is (column, descending?). An absent or empty sort is
  \<open>ORDER BY created_at DESC\<close>.\<close>

definition buildOrderByClause :: "sort_item list option \<Rightarrow> (string \<times> bool) list" where
  "buildOrderByClause srt =
     (case srt of None \<Rightarrow> [(''created_at'', True)]
      | Some [] \<Rightarrow> [(''created_at'', True)]
      | Some items \<Rightarrow>
          map (\<lambda>it. (order_column (field it), direction it = ''DESC'')) items)"

subsection \<open>Search-engine query\<close>

datatype es_clause =
    Match string string
  | Term string val
  | Range string "val option" "val option"

datatype es_bool = MatchAll | BoolMust "es_clause list"

record es_query =
  es_index :: string
  es_body_query :: es_bool
  es_sort :: "(string \<times> bool) list"
  es_from :: int
  es_size :: int

text \<open>\<open>String.prototype.toLowerCase\<close> on the ASCII letters and
  \<open>replace('_', '')\<close>, which removes the first underscore only.\<close>

definition lower_char :: "char \<Rightarrow> char" where
  "lower_char c =
     (case map_of (zip ''ABCDEFGHIJKLMNOPQRSTUVWXYZ'' ''abcdefghijklmnopqrstuvwxyz'') c of
        None \<Rightarrow> c | Some d \<Rightarrow> d)"

definition toLowerCase :: "string \<Rightarrow> string" where
  "toLowerCase s = map lower_char s"

definition replace_first_underscore :: "string \<Rightarrow> string" where
  "replace_first_underscore s = remove1 (CHR ''_'') s"

definition es_sort_item :: "sort_item \<Rightarrow> string \<times> bool" where
  "es_sort_item it =
     (replace_first_underscore (toLowerCase (field it)), direction it = ''DESC'')"

definition es_range :: "string \<Rightarrow> ('a \<Rightarrow> val) \<Rightarrow> 'a range_input option \<Rightarrow> es_clause list" where
  "es_range fld cv r =
     (case r of None \<Rightarrow> []
      | Some rg \<Rightarrow> [Range fld (map_option cv (rmin rg)) (map_option cv (rmax rg))])"

definition es_str :: "(string \<Rightarrow> es_clause) \<Rightarrow> string option \<Rightarrow> es_clause list" where
  "es_str mk x = (case x of None \<Rightarrow> [] | Some s \<Rightarrow> if s \<noteq> [] then [mk s] else [])"

definition es_must :: "compensation_filter \<Rightarrow> es_clause list" where
  "es_must f =
     es_str (Match ''employer'') (f_employer f) @
     es_str (Match ''job_title'') (jobTitleContains f) @
     es_str (Match ''location'') (locationContains f) @
     es_str (\<lambda>s. Term ''industry.keyword'' (VStr s)) (f_industry f) @
     es_str (\<lambda>s. Term ''gender'' (VStr s)) (f_gender f) @
     es_range ''annual_base_pay'' vint (annualBasePay f) @
     es_range ''years_experience_industry'' VNum (yearsExperienceIndustry f)"

definition buildElasticSearchQuery ::
  "compensation_filter option \<Rightarrow> sort_item list option \<Rightarrow> pagination option \<Rightarrow> es_query" where
  "buildElasticSearchQuery flt srt pg =
     (case flt of
        None \<Rightarrow> \<lparr>es_index = ''compensation_data'', es_body_query = MatchAll, es_sort = [],
                 es_from = page_offset pg, es_size = page_limit pg\<rparr>
      | Some f \<Rightarrow>
          \<lparr>es_index = ''compensation_data'', es_body_query = BoolMust (es_must f),
           es_sort = (case srt of None \<Rightarrow> [(''created_at'', True)]
                      | Some [] \<Rightarrow> [(''created_at'', True)]
                      | Some items \<Rightarrow> map es_sort_item items),
           es_from = page_offset pg, es_size = page_limit pg\<rparr>)"

section \<open>Fallback query router\<close>

text \<open>
  The two stores are external: \<open>search\<close> and \<open>query\<close> are taken as parameters that
  answer a request either with a thrown error (\<open>Inl\<close> of its message) or with a response.
  Every function of the router returns the list of store calls it made, in order, together
  with its outcome, so that which store was contacted is part of the result.
\<close>

datatype es_total = TotalNum int | TotalObj int

record 'r hit =
  hit_id :: string
  hit_source :: 'r

record 'r es_hits =
  total :: "es_total option"
  hits :: "'r hit list"

record 'r es_response =
  resp_hits :: "'r es_hits option"

record 'r pg_result =
  pg_rows :: "'r list"
  pg_rowCount :: nat

datatype ('e, 'q) call = SearchCall 'e | QueryCall 'q "val list"

record 'r fallback_result =
  rows :: "'r list"
  rowCount :: nat
  source :: "string option"

text \<open>\<open>{...hit._source, id: hit._id}\<close>\<close>

definition hit_row :: "'a compensation_record_scheme hit \<Rightarrow> 'a compensation_record_scheme" where
  "hit_row h = (hit_source h)\<lparr>id := hit_id h\<rparr>"

text \<open>\<open>esResult && esResult.hits && esResult.hits.hits.length > 0\<close>\<close>

definition has_hits :: "'r es_response option \<Rightarrow> bool" where
  "has_hits r =
     (case r of None \<Rightarrow> False
      | Some resp \<Rightarrow> (case resp_hits resp of None \<Rightarrow> False | Some h \<Rightarrow> length (hits h) > 0))"

definition queryWithFallback ::
  "bool \<Rightarrow> ('e \<Rightarrow> string + 'a compensation_record_scheme es_response option) \<Rightarrow>
   ('q \<Rightarrow> val list \<Rightarrow> string + 'a compensation_record_scheme pg_result) \<Rightarrow>
   'e \<Rightarrow> 'q \<Rightarrow> val list \<Rightarrow>
   ('e, 'q) call list \<times> (string + 'a compensation_record_scheme fallback_result)" where
  "queryWithFallback ENABLE_FALLBACK search query esQuery pgQuery pgParams =
     (if \<not> ENABLE_FALLBACK then
        ([QueryCall pgQuery pgParams],
         case query pgQuery pgParams of
           Inl err \<Rightarrow> Inl err
         | Inr pgResult \<Rightarrow>
             Inr \<lparr>rows = pg_rows pgResult, rowCount = pg_rowCount pgResult, source = None\<rparr>)
      else
        (case search esQuery of
           Inr esResult \<Rightarrow>
             if has_hits esResult then
               (let hs = hits (the (resp_hits (the esResult))) in
                ([SearchCall esQuery],
                 Inr \<lparr>rows = map hit_row hs, rowCount = length hs,
                      source = Some ''elasticsearch''\<rparr>))
             else
               ([SearchCall esQuery, QueryCall pgQuery pgParams],
                case query pgQuery pgParams of
                  Inl err \<Rightarrow> Inl err
                | Inr pgResult \<Rightarrow>
                    Inr \<lparr>rows = pg_rows pgResult, rowCount = pg_rowCount pgResult,
                         source = Some ''postgresql''\<rparr>)
         | Inl esError \<Rightarrow>
             ([SearchCall esQuery, QueryCall pgQuery pgParams],
              case query pgQuery pgParams of
                Inl err \<Rightarrow> Inl err
              | Inr pgResult \<Rightarrow>
                  Inr \<lparr>rows = pg_rows pgResult, rowCount = pg_rowCount pgResult,
                       source = Some ''postgresql''\<rparr>)))"

subsection \<open>The list resolver\<close>

text \<open>
  The two relational statements of \<open>Query.compensations\<close>: the count over the WHERE
  clause, and the page \<open>SELECT * ... ORDER BY ... LIMIT $n+1 OFFSET $n+2\<close>, whose last
  two parameters are the limit and the offset.
\<close>

datatype sql_stmt =
    CountQuery "sql_cond list"
  | DataQuery "sql_cond list" "(string \<times> bool) list" nat nat

record 'r connection =
  data :: "'r list"
  totalCount :: int
  hasNextPage :: bool
  hasPreviousPage :: bool
  conn_source :: string

text \<open>\<open>esResult && esResult.hits && esResult.hits.total\<close>: an absent total and the number
  zero are falsy, an object is truthy whatever its \<open>value\<close>.\<close>

definition truthy_total :: "es_total option \<Rightarrow> bool" where
  "truthy_total t =
     (case t of None \<Rightarrow> False | Some (TotalNum n) \<Rightarrow> n \<noteq> 0 | Some (TotalObj v) \<Rightarrow> True)"

definition total_value :: "es_total \<Rightarrow> int" where
  "total_value t = (case t of TotalNum n \<Rightarrow> n | TotalObj v \<Rightarrow> v)"

definition usable_hits :: "'r es_response option \<Rightarrow> 'r es_hits option" where
  "usable_hits r =
     (case r of None \<Rightarrow> None
      | Some resp \<Rightarrow>
          (case resp_hits resp of None \<Rightarrow> None
           | Some h \<Rightarrow> if truthy_total (total h) then Some h else None))"

definition make_connection :: "'r list \<Rightarrow> int \<Rightarrow> int \<Rightarrow> int \<Rightarrow> string \<Rightarrow> 'r connection" where
  "make_connection rs tc lmt ofs src =
     \<lparr>data = rs, totalCount = tc, hasNextPage = (ofs + lmt < tc),
      hasPreviousPage = (ofs > 0), conn_source = src\<rparr>"

text \<open>The relational half: count, then page. \<open>count\<close> stands for the count statement
  followed by \<open>parseInt(countResult.rows[0].total)\<close>. Any failure surfaces as the
  resolver's single error.\<close>

definition compensations_pg ::
  "(sql_stmt \<Rightarrow> val list \<Rightarrow> string + int) \<Rightarrow>
   (sql_stmt \<Rightarrow> val list \<Rightarrow> string + 'r pg_result) \<Rightarrow>
   sql_stmt \<Rightarrow> sql_stmt \<Rightarrow> val list \<Rightarrow> int \<Rightarrow> int \<Rightarrow>
   (es_query, sql_stmt) call list \<times> (string + 'r connection)" where
  "compensations_pg count query countQuery dataQuery params lmt ofs =
     (case count countQuery params of
        Inl err \<Rightarrow> ([QueryCall countQuery params], Inl ''Failed to fetch compensations'')
      | Inr tc \<Rightarrow>
          ([QueryCall countQuery params, QueryCall dataQuery (params @ [vint lmt, vint ofs])],
           case query dataQuery (params @ [vint lmt, vint ofs]) of
             Inl err \<Rightarrow> Inl ''Failed to fetch compensations''
           | Inr dataResult \<Rightarrow>
               Inr (make_connection (pg_rows dataResult) tc lmt ofs ''postgresql'')))"

definition compensations ::
  "bool \<Rightarrow> (es_query \<Rightarrow> string + 'a compensation_record_scheme es_response option) \<Rightarrow>
   (sql_stmt \<Rightarrow> val list \<Rightarrow> string + int) \<Rightarrow>
   (sql_stmt \<Rightarrow> val list \<Rightarrow> string + 'a compensation_record_scheme pg_result) \<Rightarrow>
   compensation_filter option \<Rightarrow> sort_item list option \<Rightarrow> pagination option \<Rightarrow>
   (es_query, sql_stmt) call list \<times> (string + 'a compensation_record_scheme connection)" where
  "compensations ENABLE_FALLBACK search count query flt srt pg =
     (let (conds, params) = buildWhereClause flt;
          orderByClause = buildOrderByClause srt;
          lmt = page_limit pg;
          ofs = page_offset pg;
          esQuery = buildElasticSearchQuery flt srt pg;
          countQuery = CountQuery conds;
          dataQuery = DataQuery conds orderByClause (length params + 1) (length params + 2);
          pg_path = compensations_pg count query countQuery dataQuery params lmt ofs
      in if ENABLE_FALLBACK then
           (case search esQuery of
              Inr esResult \<Rightarrow>
                (case usable_hits esResult of
                   Some h \<Rightarrow>
                     ([SearchCall esQuery],
                      Inr (make_connection (map hit_row (hits h)) (total_value (the (total h)))
                             lmt ofs ''elasticsearch''))
                 | None \<Rightarrow> (SearchCall esQuery # fst pg_path, snd pg_path))
            | Inl esError \<Rightarrow> (SearchCall esQuery # fst pg_path, snd pg_path))
         else pg_path)"

text \<open>The page size a store call carries: the \<open>size\<close> of a search request, the
  parameter bound to the \<open>LIMIT\<close> placeholder of a page statement.\<close>

fun call_page_size :: "(es_query, sql_stmt) call \<Rightarrow> val option" where
  "call_page_size (SearchCall q) = Some (vint (es_size q))"
| "call_page_size (QueryCall (DataQuery cds ob li oi) ps) =
     (if 0 < li \<and> li \<le> length ps then Some (ps ! (li - 1)) else None)"
| "call_page_size (QueryCall (CountQuery cds) ps) = None"

subsection \<open>Store behaviours used in the scenarios\<close>

definition es_down :: "'e \<Rightarrow> string + compensation_record es_response option" where
  "es_down q = Inl ''connect ECONNREFUSED''"

definition es_empty :: "es_total option \<Rightarrow> 'e \<Rightarrow> string + compensation_record es_response option" where
  "es_empty t q = Inr (Some \<lparr>resp_hits = Some \<lparr>total = t, hits = []\<rparr>\<rparr>)"

definition es_one_hit :: "'e \<Rightarrow> string + compensation_record es_response option" where
  "es_one_hit q =
     Inr (Some \<lparr>resp_hits = Some \<lparr>total = Some (TotalObj 1),
                                    hits = [\<lparr>hit_id = ''k1'', hit_source = blank_record\<rparr>]\<rparr>\<rparr>)"

definition pg_down :: "'q \<Rightarrow> val list \<Rightarrow> string + compensation_record pg_result" where
  "pg_down q ps = Inl ''connection terminated''"

definition pg_none :: "'q \<Rightarrow> val list \<Rightarrow> string + compensation_record pg_result" where
  "pg_none q ps = Inr \<lparr>pg_rows = [], pg_rowCount = 0\<rparr>"

definition pg_count0 :: "sql_stmt \<Rightarrow> val list \<Rightarrow> string + int" where
  "pg_count0 q ps = Inr 0"

section \<open>Record transformer\<close>

subsection \<open>JavaScript numbers and strings\<close>

text \<open>
  The values that \<open>||\<close>, \<open>+\<close> and \<open>/\<close> meet in \<open>transformRecord\<close> are
  integer-valued numbers and strings. A number is a double: integers below \<open>2^53\<close> in
  magnitude are exact, a larger one is the nearest double, ties to the even mantissa.
  \<open>ulp_exp m\<close> is the number of low bits a double cannot hold for the magnitude \<open>m\<close>.
\<close>

datatype jsval = JNum int | JStr string

function ulp_exp :: "int \<Rightarrow> nat" where
  "ulp_exp m = (if m < 2 ^ 53 then 0 else Suc (ulp_exp (m div 2)))"
  by pat_completeness auto
termination
  by (relation "measure (\<lambda>m. nat m)") auto

declare ulp_exp.simps [simp del]

text \<open>The nearest double to a non-negative integer, and to any integer.\<close>

definition round_magnitude :: "int \<Rightarrow> int" where
  "round_magnitude m =
     (let q = 2 ^ ulp_exp m; lo = (m div q) * q; r = m mod q in
      if 2 * r < q then lo
      else if q < 2 * r then lo + q
      else if even (m div q) then lo else lo + q)"

definition toDouble :: "int \<Rightarrow> int" where
  "toDouble n = (if n < 0 then - round_magnitude (- n) else round_magnitude n)"

text \<open>\<open>Number.prototype.toString\<close> of an integer (below \<open>10^21\<close> in magnitude, where
  JavaScript prints plain decimal digits).\<close>

definition digit_char :: "int \<Rightarrow> char" where
  "digit_char d = ''0123456789'' ! nat (d mod 10)"

function digits :: "int \<Rightarrow> string" where
  "digits n = (if n < 10 then [digit_char n] else digits (n div 10) @ [digit_char (n mod 10)])"
  by pat_completeness auto
termination
  by (relation "measure (\<lambda>n. nat n)") auto

declare digits.simps [simp del]

definition decimal :: "int \<Rightarrow> string" where
  "decimal n = (if n < 0 then CHR ''-'' # digits (- n) else digits n)"

text \<open>
  \<open>ToNumber\<close> of a string, for the strings that can arise here, which are concatenations
  of decimal integers: an optional sign followed by digits is that integer as a double, the
  empty string is 0, and anything else is \<open>NaN\<close>, written \<open>None\<close>.
\<close>

definition digit_value :: "char \<Rightarrow> int option" where
  "digit_value c = map_of (zip ''0123456789'' [0, 1, 2, 3, 4, 5, 6, 7, 8, 9]) c"

fun parse_digits :: "int \<Rightarrow> string \<Rightarrow> int option" where
  "parse_digits acc [] = Some acc"
| "parse_digits acc (c # cs) =
     (case digit_value c of None \<Rightarrow> None | Some d \<Rightarrow> parse_digits (10 * acc + d) cs)"

definition string_to_number :: "string \<Rightarrow> int option" where
  "string_to_number s =
     (case s of
        [] \<Rightarrow> Some 0
      | c # cs \<Rightarrow>
          if c = CHR ''-'' then
            (if cs = [] then None
             else map_option (\<lambda>m. toDouble (- m)) (parse_digits 0 cs))
          else if c = CHR ''+'' then
            (if cs = [] then None else map_option toDouble (parse_digits 0 cs))
          else map_option toDouble (parse_digits 0 (c # cs)))"

fun to_number :: "jsval \<Rightarrow> int option" where
  "to_number (JNum n) = Some n"
| "to_number (JStr s) = string_to_number s"

fun to_string :: "jsval \<Rightarrow> string" where
  "to_string (JNum n) = decimal n"
| "to_string (JStr s) = s"

text \<open>\<open>a + b\<close>: the rounded sum of two numbers, and concatenation as soon as one operand
  is a string.\<close>

fun js_plus :: "jsval \<Rightarrow> jsval \<Rightarrow> jsval" where
  "js_plus (JNum a) (JNum b) = JNum (toDouble (a + b))"
| "js_plus a b = JStr (to_string a @ to_string b)"

text \<open>The value read from a money property, and \<open>x || 0\<close>: an absent property, the
  number 0 and the empty string give 0; every other value, the text \<open>0\<close> included, is
  kept.\<close>

fun js_value :: "money \<Rightarrow> jsval" where
  "js_value (AsNumber n) = JNum (toDouble n)"
| "js_value (AsText n) = JStr (decimal n)"

fun truthy :: "jsval \<Rightarrow> bool" where
  "truthy (JNum n) = (n \<noteq> 0)"
| "truthy (JStr s) = (s \<noteq> [])"

definition or_zero :: "money option \<Rightarrow> jsval" where
  "or_zero x =
     (case x of None \<Rightarrow> JNum 0
      | Some m \<Rightarrow> if truthy (js_value m) then js_value m else JNum 0)"

subsection \<open>The transformer\<close>

text \<open>
  The search document is the row (\<open>{ ...record }\<close>) with three derived fields.
  \<open>total_compensation / 100\<close> converts a string total to a number first; a comparison
  with \<open>NaN\<close> is false, so such a total falls through to the last label. The quotient is
  compared exactly: for an integer dividend the rounding of the division cannot move it
  across the thresholds 50000, 100000 and 200000. The experience column is compared by its
  numeric value, which is also what the comparison does with the decimal text of the driver.
\<close>

record search_document = compensation_record +
  total_compensation :: jsval
  compensation_range :: string
  experience_level :: string

definition rat_or :: "rat option \<Rightarrow> rat \<Rightarrow> rat" where
  "rat_or x d = (case x of None \<Rightarrow> d | Some y \<Rightarrow> if y = 0 then d else y)"

definition compensation_range_of :: "jsval \<Rightarrow> string" where
  "compensation_range_of tot =
     (case to_number tot of
        None \<Rightarrow> ''Executive Level''
      | Some t \<Rightarrow>
          (let totalInDollars = (of_int t :: rat) / 100 in
           if totalInDollars < 50000 then ''Entry Level''
           else if totalInDollars < 100000 then ''Mid Level''
           else if totalInDollars < 200000 then ''Senior Level''
           else ''Executive Level''))"

definition experience_level_of :: "rat \<Rightarrow> string" where
  "experience_level_of experience =
     (if experience < 2 then ''Junior''
      else if experience < 5 then ''Mid-Level''
      else if experience < 10 then ''Senior''
      else ''Expert'')"

definition transformRecord :: "compensation_record \<Rightarrow> search_document" where
  "transformRecord record =
     (let basePay = or_zero (annual_base_pay record);
          bonus = or_zero (annual_bonus record);
          stock = or_zero (stock_value record);
          tot = js_plus (js_plus basePay bonus) stock;
          experience = rat_or (years_experience_industry record) 0
      in compensation_record.extend record
           (search_document.fields tot (compensation_range_of tot)
              (experience_level_of experience)))"

text \<open>A money property that is absent or a number holding a non-negative integer, and the
  amount it stands for.\<close>

definition number_or_absent :: "money option \<Rightarrow> bool" where
  "number_or_absent x =
     (case x of None \<Rightarrow> True | Some (AsNumber n) \<Rightarrow> 0 \<le> n | Some (AsText n) \<Rightarrow> False)"

definition amount :: "money option \<Rightarrow> int" where
  "amount x = (case x of None \<Rightarrow> 0 | Some m \<Rightarrow> cents m)"

section \<open>Bulk synchronization engine\<close>

definition BATCH_SIZE :: nat where
  "BATCH_SIZE = 1000"

definition MAX_RETRIES :: nat where
  "MAX_RETRIES = 3"

text \<open>
  What the engine does to the outside world, in order: the relational count, a window
  \<open>LIMIT l OFFSET o\<close>, one bulk request carrying the index operations of a window, a
  timer of so many milliseconds, the index refresh and the final document count.
\<close>

type_synonym bulk_ops = "(string \<times> search_document) list"

datatype sync_event =
    CountRows
  | FetchWindow nat nat
  | BulkWrite bulk_ops
  | Wait nat
  | Refresh
  | CountDocs

text \<open>An item of a bulk response: its \<open>index\<close> entry may carry an error.\<close>

record bulk_item =
  index_error :: "string option"

record bulk_response =
  errors :: bool
  items :: "bulk_item list"

text \<open>
  The stores as the engine sees them. \<open>Inl\<close> is a thrown error. The bulk response may
  depend on the window (its offset) and on how many attempts have failed before.
\<close>

record sync_env =
  count_rows :: "string + nat"
  fetch :: "nat \<Rightarrow> nat \<Rightarrow> string + compensation_record list"
  bulk :: "nat \<Rightarrow> nat \<Rightarrow> string + bulk_response"
  refresh :: "string option"
  count_docs :: "string + nat"

definition errorCount :: "bulk_response \<Rightarrow> nat" where
  "errorCount resp =
     (if errors resp then length (filter (\<lambda>item. index_error item \<noteq> None) (items resp)) else 0)"

text \<open>
  The retry loop \<open>while (retries < MAX_RETRIES && !success)\<close>. The state is the pair of
  counters (processedRecords, failedRecords); \<open>n\<close> is \<open>records.length\<close>.
\<close>

function bulk_retry ::
  "(nat \<Rightarrow> string + bulk_response) \<Rightarrow> bulk_ops \<Rightarrow> nat \<Rightarrow> nat \<Rightarrow> nat \<times> nat \<Rightarrow>
   sync_event list \<times> (nat \<times> nat)" where
  "bulk_retry attempt bulkOps n retries st =
     (if retries < MAX_RETRIES then
        (case attempt retries of
           Inr bulkResponse \<Rightarrow>
             ([BulkWrite bulkOps], (fst st + n, snd st + errorCount bulkResponse))
         | Inl err \<Rightarrow>
             (if Suc retries \<ge> MAX_RETRIES then
                (let r = bulk_retry attempt bulkOps n (Suc retries) (fst st, snd st + n)
                 in (BulkWrite bulkOps # fst r, snd r))
              else
                (let r = bulk_retry attempt bulkOps n (Suc retries) st
                 in (BulkWrite bulkOps # Wait (Suc retries * 1000) # fst r, snd r))))
      else ([], st))"
  by pat_completeness auto
termination
  by (relation "measure (\<lambda>(attempt, bulkOps, n, retries, st). MAX_RETRIES - retries)") auto

declare bulk_retry.simps [simp del]

definition bulk_operations :: "compensation_record list \<Rightarrow> bulk_ops" where
  "bulk_operations records = map (\<lambda>record. (id record, transformRecord record)) records"

text \<open>The window loop \<open>while (offset < totalRecords)\<close>.\<close>

function sync_loop ::
  "sync_env \<Rightarrow> nat \<Rightarrow> nat \<Rightarrow> nat \<times> nat \<Rightarrow> sync_event list \<times> (string + nat \<times> nat)" where
  "sync_loop env totalRecords ofs st =
     (if ofs < totalRecords then
        (case fetch env BATCH_SIZE ofs of
           Inl err \<Rightarrow> ([FetchWindow BATCH_SIZE ofs], Inl err)
         | Inr records \<Rightarrow>
             (if length records = 0 then ([FetchWindow BATCH_SIZE ofs], Inr st)
              else
                (let b = bulk_retry (bulk env ofs) (bulk_operations records) (length records) 0 st;
                     r = sync_loop env totalRecords (ofs + BATCH_SIZE) (snd b)
                 in (FetchWindow BATCH_SIZE ofs # fst b @ [Wait 100] @ fst r, snd r))))
      else ([], Inr st))"
  by pat_completeness auto
termination
  by (relation "measure (\<lambda>(env, totalRecords, ofs, st). totalRecords - ofs)")
     (auto simp: BATCH_SIZE_def)

declare sync_loop.simps [simp del]

datatype sync_outcome = NoData | Completed nat nat | Failed string

definition streamDataToElasticSearch :: "sync_env \<Rightarrow> sync_event list \<times> sync_outcome" where
  "streamDataToElasticSearch env =
     (case count_rows env of
        Inl err \<Rightarrow> ([CountRows], Failed err)
      | Inr totalRecords \<Rightarrow>
          (if totalRecords = 0 then ([CountRows], NoData)
           else
             (let r = sync_loop env totalRecords 0 (0, 0) in
              case snd r of
                Inl err \<Rightarrow> (CountRows # fst r, Failed err)
              | Inr st \<Rightarrow>
                  (case refresh env of
                     Some err \<Rightarrow> (CountRows # fst r @ [Refresh], Failed err)
                   | None \<Rightarrow>
                       (case count_docs env of
                          Inl err \<Rightarrow> (CountRows # fst r @ [Refresh, CountDocs], Failed err)
                        | Inr n \<Rightarrow>
                            (CountRows # fst r @ [Refresh, CountDocs],
                             Completed (fst st) (snd st)))))))"

subsection \<open>Observations on a run\<close>

fun fetched_window :: "sync_event \<Rightarrow> (nat \<times> nat) option" where
  "fetched_window (FetchWindow l ofs) = Some (l, ofs)"
| "fetched_window _ = None"

fun bulk_size :: "sync_event \<Rightarrow> nat option" where
  "bulk_size (BulkWrite bulkOps) = Some (length bulkOps)"
| "bulk_size _ = None"

definition fetched_windows :: "sync_event list \<Rightarrow> (nat \<times> nat) list" where
  "fetched_windows evs = List.map_filter fetched_window evs"

definition bulk_sizes :: "sync_event list \<Rightarrow> nat list" where
  "bulk_sizes evs = List.map_filter bulk_size evs"

subsection \<open>Store behaviours used in the scenarios\<close>

definition bulk_ok :: "nat \<Rightarrow> nat \<Rightarrow> string + bulk_response" where
  "bulk_ok ofs retries = Inr \<lparr>errors = False, items = []\<rparr>"

text \<open>A relational table that does not change while the engine runs: the count is its
  length and a window is the slice \<open>LIMIT l OFFSET o\<close> of its rows in key order.\<close>

definition snapshot_env :: "compensation_record list \<Rightarrow> (nat \<Rightarrow> nat \<Rightarrow> string + bulk_response) \<Rightarrow> sync_env" where
  "snapshot_env table b =
     \<lparr>count_rows = Inr (length table),
      fetch = (\<lambda>l ofs. Inr (take l (drop ofs table))),
      bulk = b, refresh = None, count_docs = Inr (length table)\<rparr>"

text \<open>A table that shrinks after it was counted: 2500 rows at the count, 500 rows when the
  first window is read.\<close>

definition shrinking_env :: sync_env where
  "shrinking_env =
     \<lparr>count_rows = Inr 2500,
      fetch = (\<lambda>l ofs. Inr (take l (drop ofs (replicate 500 blank_record)))),
      bulk = bulk_ok, refresh = None, count_docs = Inr 500\<rparr>"

text \<open>A search store that rejects every bulk request for the first window and accepts
  all later ones.\<close>

definition bulk_first_window_down :: "nat \<Rightarrow> nat \<Rightarrow> string + bulk_response" where
  "bulk_first_window_down ofs retries =
     (if ofs = 0 then Inl ''connect ETIMEDOUT'' else Inr \<lparr>errors = False, items = []\<rparr>)"

section \<open>Change capture subscriber\<close>

text \<open>
  The payload published by the trigger: \<open>{operation, id, data}\<close>, where \<open>data\<close> is
  \<open>row_to_json(NEW)\<close> and therefore null for a delete. A notification whose text is not
  JSON is \<open>None\<close>.
\<close>

record change_payload =
  operation :: string
  payload_id :: string
  payload_data :: "compensation_record option"

text \<open>The search client: each call either returns or throws (\<open>Some\<close> of the message).\<close>

record es_client =
  client_index :: "string \<Rightarrow> search_document \<Rightarrow> string option"
  client_delete :: "string \<Rightarrow> string option"

datatype capture_event =
    IndexDoc string search_document
  | DeleteDoc string
  | LogDebug string
  | LogError string

text \<open>
  The notification handler. Its whole body is inside \<open>try { ... } catch (error)\<close>, and the
  catch block only logs; the result is the list of client calls and log lines, and whether
  an error leaves the handler.
\<close>

definition on_notification ::
  "es_client \<Rightarrow> change_payload option \<Rightarrow> capture_event list \<times> (string + unit)" where
  "on_notification es msg =
     (case msg of
        None \<Rightarrow> ([LogError ''Failed to process real-time update:''], Inr ())
      | Some payload \<Rightarrow>
          if operation payload = ''INSERT'' \<or> operation payload = ''UPDATE'' then
            (case payload_data payload of
               None \<Rightarrow> ([LogError ''Failed to process real-time update:''], Inr ())
             | Some row \<Rightarrow>
                 (case client_index es (payload_id payload) (transformRecord row) of
                    Some err \<Rightarrow>
                      ([IndexDoc (payload_id payload) (transformRecord row),
                        LogError ''Failed to process real-time update:''], Inr ())
                  | None \<Rightarrow>
                      ([IndexDoc (payload_id payload) (transformRecord row),
                        LogDebug (''Real-time indexed document ID: '' @ payload_id payload)],
                       Inr ())))
          else if operation payload = ''DELETE'' then
            (case client_delete es (payload_id payload) of
               Some err \<Rightarrow>
                 ([DeleteDoc (payload_id payload),
                   LogError ''Failed to process real-time update:''], Inr ())
             | None \<Rightarrow>
                 ([DeleteDoc (payload_id payload),
                   LogDebug (''Real-time deleted document ID: '' @ payload_id payload)],
                  Inr ()))
          else ([], Inr ()))"

subsection \<open>Client behaviours used in the scenarios\<close>

text \<open>A search store holding the given keys. Deleting a stored key succeeds; deleting any
  other key is answered with status 404, which the client raises as a response error.\<close>

definition client_over :: "string list \<Rightarrow> es_client" where
  "client_over keys =
     \<lparr>client_index = (\<lambda>k doc. None),
      client_delete = (\<lambda>k. if k \<in> set keys then None
                           else Some ''ResponseError: not_found (404)'')\<rparr>"

definition delete_k1 :: change_payload where
  "delete_k1 = \<lparr>operation = ''DELETE'', payload_id = ''k1'', payload_data = None\<rparr>"

section \<open>What the two query languages select\<close>

text \<open>
  To compare the relational statement with the search request, both are run over the same
  list of rows. A column is looked up by its name; an unknown name has no value.
\<close>

definition column_value :: "string \<Rightarrow> compensation_record \<Rightarrow> val option" where
  "column_value c r =
     (if c = ''id'' then Some (VStr (id r))
      else if c = ''employer'' then map_option VStr (employer r)
      else if c = ''job_title'' then map_option VStr (job_title r)
      else if c = ''location'' then map_option VStr (location r)
      else if c = ''industry'' then map_option VStr (industry r)
      else if c = ''gender'' then map_option VStr (gender r)
      else if c = ''annual_base_pay'' then map_option (\<lambda>m. vint (cents m)) (annual_base_pay r)
      else if c = ''annual_bonus'' then map_option (\<lambda>m. vint (cents m)) (annual_bonus r)
      else if c = ''stock_value'' then map_option (\<lambda>m. vint (cents m)) (stock_value r)
      else if c = ''years_experience_industry'' then map_option VNum (years_experience_industry r)
      else if c = ''years_experience_company'' then map_option VNum (years_experience_company r)
      else if c = ''timestamp'' then map_option vint (timestamp r)
      else if c = ''health_insurance_offered'' then map_option VBool (health_insurance_offered r)
      else if c = ''data_quality_score'' then map_option VNum (data_quality_score r)
      else if c = ''created_at'' then map_option vint (created_at r)
      else None)"

fun val_le :: "val \<Rightarrow> val \<Rightarrow> bool" where
  "val_le (VNum a) (VNum b) = (a \<le> b)"
| "val_le _ _ = False"

subsection \<open>Relational side\<close>

text \<open>\<open>LIKE\<close> with the wildcards \<open>%\<close> and \<open>_\<close> (escapes are not modelled);
  \<open>ILIKE\<close> compares without regard to case.\<close>

fun like_match :: "string \<Rightarrow> string \<Rightarrow> bool" where
  "like_match [] s = (s = [])"
| "like_match (p # ps) [] = (p = CHR ''%'' \<and> like_match ps [])"
| "like_match (p # ps) (c # cs) =
     (if p = CHR ''%'' then like_match ps (c # cs) \<or> like_match (p # ps) cs
      else (p = CHR ''_'' \<or> p = c) \<and> like_match ps cs)"

definition ilike :: "string \<Rightarrow> string \<Rightarrow> bool" where
  "ilike s pat = like_match (toLowerCase pat) (toLowerCase s)"

text \<open>A condition on a row; a comparison with NULL is not true.\<close>

definition cond_holds :: "val list \<Rightarrow> compensation_record \<Rightarrow> sql_cond \<Rightarrow> bool" where
  "cond_holds params r c =
     (if param c = 0 \<or> length params < param c then False
      else
        (case column_value (column c) r of
           None \<Rightarrow> False
         | Some v \<Rightarrow>
             (let p = params ! (param c - 1) in
              case op c of
                EQ \<Rightarrow> v = p
              | GE \<Rightarrow> val_le p v
              | LE \<Rightarrow> val_le v p
              | ILIKE \<Rightarrow> (case (v, p) of (VStr s, VStr pat) \<Rightarrow> ilike s pat | _ \<Rightarrow> False))))"

definition where_rows :: "sql_cond list \<Rightarrow> val list \<Rightarrow> compensation_record list \<Rightarrow> compensation_record list" where
  "where_rows conds params table = filter (\<lambda>r. list_all (cond_holds params r) conds) table"

text \<open>
  Ordering by a list of (column, descending?) items over numeric columns, as a stable
  insertion sort. \<open>lt desc k1 k2\<close> says that key \<open>k1\<close> comes strictly first under one item.
  The relational store treats NULL as larger than every value; the search store puts
  documents without the field last in either direction.
\<close>

definition sort_key :: "string \<Rightarrow> compensation_record \<Rightarrow> rat option" where
  "sort_key c r = (case column_value c r of Some (VNum a) \<Rightarrow> Some a | _ \<Rightarrow> None)"

fun pg_lt :: "bool \<Rightarrow> rat option \<Rightarrow> rat option \<Rightarrow> bool" where
  "pg_lt False (Some a) (Some b) = (a < b)"
| "pg_lt False (Some a) None = True"
| "pg_lt False None k = False"
| "pg_lt True (Some a) (Some b) = (b < a)"
| "pg_lt True None (Some b) = True"
| "pg_lt True k None = False"

fun es_lt :: "bool \<Rightarrow> rat option \<Rightarrow> rat option \<Rightarrow> bool" where
  "es_lt desc (Some a) (Some b) = (if desc then b < a else a < b)"
| "es_lt desc (Some a) None = True"
| "es_lt desc None k = False"

fun comes_before ::
  "(bool \<Rightarrow> rat option \<Rightarrow> rat option \<Rightarrow> bool) \<Rightarrow> (string \<times> bool) list \<Rightarrow>
   compensation_record \<Rightarrow> compensation_record \<Rightarrow> bool" where
  "comes_before lt [] r1 r2 = False"
| "comes_before lt ((c, desc) # rest) r1 r2 =
     (if lt desc (sort_key c r1) (sort_key c r2) then True
      else if lt desc (sort_key c r2) (sort_key c r1) then False
      else comes_before lt rest r1 r2)"

fun insert_by :: "('a \<Rightarrow> 'a \<Rightarrow> bool) \<Rightarrow> 'a \<Rightarrow> 'a list \<Rightarrow> 'a list" where
  "insert_by bf x [] = [x]"
| "insert_by bf x (y # ys) = (if bf y x then y # insert_by bf x ys else x # y # ys)"

definition order_by :: "('a \<Rightarrow> 'a \<Rightarrow> bool) \<Rightarrow> 'a list \<Rightarrow> 'a list" where
  "order_by bf xs = foldr (insert_by bf) xs []"

text \<open>The page statement of the list resolver with its parameters bound; a negative
  \<open>LIMIT\<close> or \<open>OFFSET\<close> is rejected by the store.\<close>

definition relational_page ::
  "compensation_record list \<Rightarrow> sql_cond list \<Rightarrow> val list \<Rightarrow> (string \<times> bool) list \<Rightarrow>
   int \<Rightarrow> int \<Rightarrow> string + compensation_record list" where
  "relational_page table conds params ord_items lmt ofs =
     (if lmt < 0 then Inl ''LIMIT must not be negative''
      else if ofs < 0 then Inl ''OFFSET must not be negative''
      else Inr (take (nat lmt) (drop (nat ofs)
             (order_by (comes_before pg_lt ord_items) (where_rows conds params table)))))"

definition relational_keys ::
  "compensation_record list \<Rightarrow> compensation_filter option \<Rightarrow> sort_item list option \<Rightarrow>
   pagination option \<Rightarrow> string + string list" where
  "relational_keys table flt srt pg =
     map_sum (\<lambda>e. e) (map id)
       (relational_page table (fst (buildWhereClause flt)) (snd (buildWhereClause flt))
          (buildOrderByClause srt) (page_limit pg) (page_offset pg))"

subsection \<open>Search side\<close>

text \<open>The fields of the index mapping created by the streamer.\<close>

definition mapped_fields :: "string list" where
  "mapped_fields =
     [''timestamp'', ''employer'', ''location'', ''job_title'', ''years_experience_industry'',
      ''years_experience_company'', ''annual_base_pay'', ''signing_bonus'', ''annual_bonus'',
      ''stock_value'', ''health_insurance_offered'', ''annual_vacation_weeks'', ''industry'',
      ''employment_type'', ''is_manager'', ''level'', ''required_hours_per_week'',
      ''actual_hours_per_week'', ''highest_level_of_formal_education'', ''gender'',
      ''final_question'', ''data_quality_score'', ''source_file'', ''created_at'',
      ''updated_at'', ''total_compensation'', ''compensation_range'', ''experience_level'']"

text \<open>The value of a document field; \<open>industry.keyword\<close> is the untokenised
  sub-field of \<open>industry\<close>.\<close>

definition field_value :: "string \<Rightarrow> compensation_record \<Rightarrow> val option" where
  "field_value f r =
     (if f = ''industry.keyword'' then column_value ''industry'' r else column_value f r)"

text \<open>
  A clause on a document. The analysed, fuzzy \<open>match\<close> of the search engine is not
  modelled: it is the parameter \<open>fuzzy\<close>. A \<open>range\<close> holds only for a document that
  has the field.
\<close>

fun clause_holds ::
  "(string \<Rightarrow> string \<Rightarrow> bool) \<Rightarrow> compensation_record \<Rightarrow> es_clause \<Rightarrow> bool" where
  "clause_holds fuzzy r (Match f q) =
     (case field_value f r of Some (VStr s) \<Rightarrow> fuzzy s q | _ \<Rightarrow> False)"
| "clause_holds fuzzy r (Term f v) = (field_value f r = Some v)"
| "clause_holds fuzzy r (Range f lo hi) =
     (case field_value f r of
        None \<Rightarrow> False
      | Some v \<Rightarrow>
          (case lo of None \<Rightarrow> True | Some l \<Rightarrow> val_le l v) \<and>
          (case hi of None \<Rightarrow> True | Some h \<Rightarrow> val_le v h))"

fun query_holds ::
  "(string \<Rightarrow> string \<Rightarrow> bool) \<Rightarrow> compensation_record \<Rightarrow> es_bool \<Rightarrow> bool" where
  "query_holds fuzzy r MatchAll = True"
| "query_holds fuzzy r (BoolMust cs) = list_all (clause_holds fuzzy r) cs"

text \<open>The search request over the indexed rows. Sorting on a field that the mapping does
  not have is rejected; with no sort the hits keep the order of the index.\<close>

definition search_page ::
  "(string \<Rightarrow> string \<Rightarrow> bool) \<Rightarrow> compensation_record list \<Rightarrow> es_query \<Rightarrow>
   string + compensation_record list" where
  "search_page fuzzy docs q =
     (if es_size q < 0 \<or> es_from q < 0 then Inl ''illegal_argument_exception''
      else if \<not> list_all (\<lambda>(f, desc). f \<in> set mapped_fields) (es_sort q)
        then Inl ''No mapping found in order to sort on''
      else Inr (take (nat (es_size q)) (drop (nat (es_from q))
             (order_by (comes_before es_lt (es_sort q))
                (filter (\<lambda>r. query_holds fuzzy r (es_body_query q)) docs)))))"

definition search_keys ::
  "(string \<Rightarrow> string \<Rightarrow> bool) \<Rightarrow> compensation_record list \<Rightarrow> compensation_filter option \<Rightarrow>
   sort_item list option \<Rightarrow> pagination option \<Rightarrow> string + string list" where
  "search_keys fuzzy docs flt srt pg =
     map_sum (\<lambda>e. e) (map id) (search_page fuzzy docs (buildElasticSearchQuery flt srt pg))"

subsection \<open>Fixture\<close>

definition no_filter :: compensation_filter where
  "no_filter =
     \<lparr>f_employer = None, jobTitleContains = None, locationContains = None, f_industry = None,
      f_gender = None, annualBasePay = None, yearsExperienceIndustry = None,
      timestampAfter = None, timestampBefore = None, healthInsuranceOffered = None,
      dataQualityScoreMin = None\<rparr>"

definition insured_filter :: compensation_filter where
  "insured_filter = no_filter\<lparr>healthInsuranceOffered := Some True\<rparr>"

definition two_rows :: "compensation_record list" where
  "two_rows =
     [blank_record\<lparr>id := ''k1'', health_insurance_offered := Some True, created_at := Some 2\<rparr>,
      blank_record\<lparr>id := ''k2'', health_insurance_offered := Some False, created_at := Some 1\<rparr>]"

section \<open>Location statistics\<close>

text \<open>
  The aggregate statement of \<open>Query.locationStats\<close>, read over a table: the rows that
  pass the WHERE clause and have a location and a positive base pay are grouped by location;
  groups of fewer than three rows are dropped; each group yields its count and the average,
  minimum, maximum and median of \<open>annual_base_pay::DECIMAL / 100\<close>; the groups are ordered
  by average, highest first, and cut at the limit. Decimals are exact rationals here.
\<close>

record location_row =
  lr_location :: string
  lr_count :: nat
  average_salary :: rat
  min_salary :: rat
  max_salary :: rat
  median_salary :: rat

definition eligible :: "compensation_record \<Rightarrow> bool" where
  "eligible r =
     (location r \<noteq> None \<and> (case annual_base_pay r of None \<Rightarrow> False | Some p \<Rightarrow> cents p > 0))"

definition salaries_at :: "string \<Rightarrow> compensation_record list \<Rightarrow> rat list" where
  "salaries_at loc rs =
     concat (map (\<lambda>r. if location r = Some loc
                       then (case annual_base_pay r of None \<Rightarrow> [] | Some p \<Rightarrow> [of_int (cents p) / 100])
                       else []) rs)"

definition locations_of :: "compensation_record list \<Rightarrow> string list" where
  "locations_of rs = remdups (concat (map (\<lambda>r. case location r of None \<Rightarrow> [] | Some l \<Rightarrow> [l]) rs))"

text \<open>\<open>PERCENTILE_CONT(0.5)\<close>: the middle value of the sorted list, or the mean of the
  two middle values.\<close>

definition percentile_cont_half :: "rat list \<Rightarrow> rat" where
  "percentile_cont_half xs =
     (let ys = sort xs; n = length ys in
      if n = 0 then 0 else (ys ! ((n - 1) div 2) + ys ! (n div 2)) / 2)"

definition group_row :: "compensation_record list \<Rightarrow> string \<Rightarrow> location_row" where
  "group_row rs loc =
     (let sal = salaries_at loc rs in
      \<lparr>lr_location = loc, lr_count = length sal,
       average_salary = sum_list sal / of_nat (length sal),
       min_salary = (case sal of [] \<Rightarrow> 0 | x # xs \<Rightarrow> fold min xs x),
       max_salary = (case sal of [] \<Rightarrow> 0 | x # xs \<Rightarrow> fold max xs x),
       median_salary = percentile_cont_half sal\<rparr>)"

definition location_stats_query ::
  "compensation_record list \<Rightarrow> sql_cond list \<Rightarrow> val list \<Rightarrow> int \<Rightarrow> string + location_row list" where
  "location_stats_query table conds params lmt =
     (if lmt < 0 then Inl ''LIMIT must not be negative''
      else
        (let rs = filter eligible (where_rows conds params table);
             groups = filter (\<lambda>g. lr_count g \<ge> 3) (map (group_row rs) (locations_of rs))
         in Inr (take (nat lmt)
                  (order_by (\<lambda>g1 g2. average_salary g2 < average_salary g1) groups))))"

text \<open>
  The resolver: the statement is sent to the relational store only. \<open>db\<close> is the store,
  either unreachable (\<open>Inl\<close>) or holding a table. \<open>parseFloat\<close> of a decimal is taken as
  the decimal itself, and \<open>Math.round(x * 100)\<close> is \<open>round\<close>. Every failure surfaces as
  the resolver's single error.
\<close>

record location_stats =
  ls_location :: string
  ls_count :: int
  averageSalary :: rat
  medianSalary :: rat
  minSalary :: int
  maxSalary :: int

definition to_location_stats :: "location_row \<Rightarrow> location_stats" where
  "to_location_stats row =
     \<lparr>ls_location = lr_location row, ls_count = int (lr_count row),
      averageSalary = average_salary row, medianSalary = median_salary row,
      minSalary = round (min_salary row * 100), maxSalary = round (max_salary row * 100)\<rparr>"

definition locationStats ::
  "(string + compensation_record list) \<Rightarrow> compensation_filter option \<Rightarrow> int option \<Rightarrow>
   string + location_stats list" where
  "locationStats db flt lmt =
     (case db of
        Inl err \<Rightarrow> Inl ''Failed to fetch location statistics''
      | Inr table \<Rightarrow>
          (case location_stats_query table (fst (buildWhereClause flt)) (snd (buildWhereClause flt))
                  (case lmt of None \<Rightarrow> 10 | Some n \<Rightarrow> n) of
             Inl err \<Rightarrow> Inl ''Failed to fetch location statistics''
           | Inr result \<Rightarrow> Inr (map to_location_stats result)))"

definition san_francisco :: "compensation_record list" where
  "san_francisco =
     [blank_record\<lparr>id := ''sf1'', location := Some ''San Francisco'', annual_base_pay := Some (AsText 12000000)\<rparr>,
      blank_record\<lparr>id := ''sf2'', location := Some ''San Francisco'', annual_base_pay := Some (AsText 11000000)\<rparr>,
      blank_record\<lparr>id := ''sf3'', location := Some ''San Francisco'', annual_base_pay := Some (AsText 9500000)\<rparr>]"

section \<open>Properties of the fallback query router\<close>

text \<open>
  C1. With fallback disabled, \<open>queryWithFallback\<close> makes exactly one store call, the
  relational query, and returns its outcome. With fallback enabled and the search call
  throwing, the calls are the search followed by one relational query; a relational success
  is returned tagged \<open>postgresql\<close>, a relational failure is returned as that error, and no
  further call is made.
\<close>

theorem queryWithFallback_paths:
  "(\<not> en \<longrightarrow>
      queryWithFallback en search query e q ps =
        ([QueryCall q ps],
         case query q ps of Inl err \<Rightarrow> Inl err
         | Inr r \<Rightarrow> Inr \<lparr>rows = pg_rows r, rowCount = pg_rowCount r, source = None\<rparr>)) \<and>
   (en \<and> isl (search e) \<longrightarrow>
      fst (queryWithFallback en search query e q ps) = [SearchCall e, QueryCall q ps] \<and>
      (\<forall>r. query q ps = Inr r \<longrightarrow>
         snd (queryWithFallback en search query e q ps) =
           Inr \<lparr>rows = pg_rows r, rowCount = pg_rowCount r, source = Some ''postgresql''\<rparr>) \<and>
      (\<forall>err. query q ps = Inl err \<longrightarrow>
         snd (queryWithFallback en search query e q ps) = Inl err))"
  by (cases "search e") (auto simp: queryWithFallback_def split: sum.splits)

theorem queryWithFallback_paths_witness:
  "queryWithFallback False es_down pg_none ''es'' ''pg'' [] =
     ([QueryCall ''pg'' []], Inr \<lparr>rows = [], rowCount = 0, source = None\<rparr>) \<and>
   queryWithFallback True es_down pg_none ''es'' ''pg'' [] =
     ([SearchCall ''es'', QueryCall ''pg'' []],
      Inr \<lparr>rows = [], rowCount = 0, source = Some ''postgresql''\<rparr>) \<and>
   queryWithFallback True es_down pg_down ''es'' ''pg'' [] =
     ([SearchCall ''es'', QueryCall ''pg'' []], Inl ''connection terminated'')"
  using queryWithFallback_paths [of False es_down pg_none "''es''" "''pg''" "[]"]
        queryWithFallback_paths [of True es_down pg_none "''es''" "''pg''" "[]"]
        queryWithFallback_paths [of True es_down pg_down "''es''" "''pg''" "[]"]
  by (simp add: es_down_def pg_none_def pg_down_def prod_eq_iff)

text \<open>
  C3, as stated, fails: a search response that arrives without error but carries no hits
  sends \<open>queryWithFallback\<close> on to the relational query, and the result is tagged
  \<open>postgresql\<close> although nothing was thrown.
\<close>

theorem clean_empty_result_counterexample:
  "queryWithFallback True (es_empty (Some (TotalObj 0))) pg_none ''es'' ''pg'' [] =
     ([SearchCall ''es'', QueryCall ''pg'' []],
      Inr \<lparr>rows = [], rowCount = 0, source = Some ''postgresql''\<rparr>)"
  by (simp add: queryWithFallback_def es_empty_def pg_none_def has_hits_def)

lemma compensations_enabled:
  "compensations True search count query f s p =
     (let esq = buildElasticSearchQuery f s p;
          bw = buildWhereClause f;
          pgp = compensations_pg count query (CountQuery (fst bw))
                  (DataQuery (fst bw) (buildOrderByClause s) (length (snd bw) + 1)
                     (length (snd bw) + 2))
                  (snd bw) (page_limit p) (page_offset p)
      in case search esq of
           Inl err \<Rightarrow> (SearchCall esq # fst pgp, snd pgp)
         | Inr r \<Rightarrow>
            (case usable_hits r of
               None \<Rightarrow> (SearchCall esq # fst pgp, snd pgp)
             | Some h \<Rightarrow> ([SearchCall esq],
                  Inr (make_connection (map hit_row (hits h)) (total_value (the (total h)))
                        (page_limit p) (page_offset p) ''elasticsearch''))))"
  by (cases "buildWhereClause f")
     (simp add: compensations_def Let_def split: sum.splits option.splits)

lemma compensations_pg_source:
  "snd (compensations_pg count query cq dq ps l ofs) = Inr c \<Longrightarrow> conn_source c = ''postgresql''"
  by (auto simp: compensations_pg_def make_connection_def split: sum.splits)

text \<open>
  C3, amended. With fallback enabled, \<open>queryWithFallback\<close> returns the hits of the search
  call, tagged \<open>elasticsearch\<close>, when that call returns without error and with at least
  one hit; in every other case, a thrown error or an error-free response without hits, it
  makes the relational query and returns its rows tagged \<open>postgresql\<close>, or its error.
  The list resolver returns an error-free response whose \<open>hits.total\<close> is an object at
  once, tagged \<open>elasticsearch\<close>, also when it has no hits; when the search call throws
  it goes on to the count and page statements, and a result it then returns is tagged
  \<open>postgresql\<close>.
\<close>

theorem primary_path_result:
  "(\<forall>resp h. search e = Inr (Some resp) \<and> resp_hits resp = Some h \<and> hits h \<noteq> [] \<longrightarrow>
      queryWithFallback True search query e q ps =
        ([SearchCall e],
         Inr \<lparr>rows = map hit_row (hits h), rowCount = length (hits h),
              source = Some ''elasticsearch''\<rparr>)) \<and>
   (\<not> (\<exists>resp h. search e = Inr (Some resp) \<and> resp_hits resp = Some h \<and> hits h \<noteq> []) \<longrightarrow>
      queryWithFallback True search query e q ps =
        ([SearchCall e, QueryCall q ps],
         case query q ps of
           Inl err \<Rightarrow> Inl err
         | Inr r \<Rightarrow> Inr \<lparr>rows = pg_rows r, rowCount = pg_rowCount r,
                         source = Some ''postgresql''\<rparr>)) \<and>
   (\<forall>resp h v. es (buildElasticSearchQuery f s p) = Inr (Some resp) \<and>
        resp_hits resp = Some h \<and> total h = Some (TotalObj v) \<longrightarrow>
      compensations True es count pg f s p =
        ([SearchCall (buildElasticSearchQuery f s p)],
         Inr (make_connection (map hit_row (hits h)) v (page_limit p) (page_offset p)
                ''elasticsearch''))) \<and>
   (isl (es (buildElasticSearchQuery f s p)) \<longrightarrow>
      compensations True es count pg f s p =
        (SearchCall (buildElasticSearchQuery f s p) #
           fst (compensations_pg count pg (CountQuery (fst (buildWhereClause f)))
                 (DataQuery (fst (buildWhereClause f)) (buildOrderByClause s)
                    (length (snd (buildWhereClause f)) + 1)
                    (length (snd (buildWhereClause f)) + 2))
                 (snd (buildWhereClause f)) (page_limit p) (page_offset p)),
         snd (compensations_pg count pg (CountQuery (fst (buildWhereClause f)))
                 (DataQuery (fst (buildWhereClause f)) (buildOrderByClause s)
                    (length (snd (buildWhereClause f)) + 1)
                    (length (snd (buildWhereClause f)) + 2))
                 (snd (buildWhereClause f)) (page_limit p) (page_offset p))) \<and>
      (\<forall>c. snd (compensations True es count pg f s p) = Inr c \<longrightarrow>
           conn_source c = ''postgresql''))"
proof (intro conjI allI impI)
  fix resp h
  assume "search e = Inr (Some resp) \<and> resp_hits resp = Some h \<and> hits h \<noteq> []"
  then show "queryWithFallback True search query e q ps =
        ([SearchCall e],
         Inr \<lparr>rows = map hit_row (hits h), rowCount = length (hits h),
              source = Some ''elasticsearch''\<rparr>)"
    by (simp add: queryWithFallback_def has_hits_def Let_def)
next
  assume n: "\<not> (\<exists>resp h. search e = Inr (Some resp) \<and> resp_hits resp = Some h \<and> hits h \<noteq> [])"
  show "queryWithFallback True search query e q ps =
        ([SearchCall e, QueryCall q ps],
         case query q ps of
           Inl err \<Rightarrow> Inl err
         | Inr r \<Rightarrow> Inr \<lparr>rows = pg_rows r, rowCount = pg_rowCount r,
                         source = Some ''postgresql''\<rparr>)"
  proof (cases "search e")
    case (Inl err)
    then show ?thesis by (simp add: queryWithFallback_def)
  next
    case (Inr r)
    with n have "\<not> has_hits r"
      by (auto simp: has_hits_def split: option.splits)
    with Inr show ?thesis by (simp add: queryWithFallback_def)
  qed
next
  fix resp h v
  assume "es (buildElasticSearchQuery f s p) = Inr (Some resp) \<and>
        resp_hits resp = Some h \<and> total h = Some (TotalObj v)"
  then show "compensations True es count pg f s p =
        ([SearchCall (buildElasticSearchQuery f s p)],
         Inr (make_connection (map hit_row (hits h)) v (page_limit p) (page_offset p)
                ''elasticsearch''))"
    by (simp add: compensations_enabled Let_def usable_hits_def truthy_total_def
        total_value_def)
next
  assume a: "isl (es (buildElasticSearchQuery f s p))"
  then obtain err where err: "es (buildElasticSearchQuery f s p) = Inl err"
    by (cases "es (buildElasticSearchQuery f s p)") auto
  then show "compensations True es count pg f s p =
        (SearchCall (buildElasticSearchQuery f s p) #
           fst (compensations_pg count pg (CountQuery (fst (buildWhereClause f)))
                 (DataQuery (fst (buildWhereClause f)) (buildOrderByClause s)
                    (length (snd (buildWhereClause f)) + 1)
                    (length (snd (buildWhereClause f)) + 2))
                 (snd (buildWhereClause f)) (page_limit p) (page_offset p)),
         snd (compensations_pg count pg (CountQuery (fst (buildWhereClause f)))
                 (DataQuery (fst (buildWhereClause f)) (buildOrderByClause s)
                    (length (snd (buildWhereClause f)) + 1)
                    (length (snd (buildWhereClause f)) + 2))
                 (snd (buildWhereClause f)) (page_limit p) (page_offset p)))"
    by (simp add: compensations_enabled Let_def)
  fix c assume "snd (compensations True es count pg f s p) = Inr c"
  with err show "conn_source c = ''postgresql''"
    using compensations_pg_source [of count pg]
    by (simp add: compensations_enabled Let_def)
qed

theorem primary_path_result_witness:
  "queryWithFallback True es_one_hit pg_none ''es'' ''pg'' [] =
     ([SearchCall ''es''],
      Inr \<lparr>rows = [blank_record], rowCount = 1, source = Some ''elasticsearch''\<rparr>) \<and>
   queryWithFallback True (es_empty (Some (TotalObj 0))) pg_none ''es'' ''pg'' [] =
     ([SearchCall ''es'', QueryCall ''pg'' []],
      Inr \<lparr>rows = [], rowCount = 0, source = Some ''postgresql''\<rparr>) \<and>
   compensations True (es_empty (Some (TotalObj 0))) pg_count0 pg_none None None None =
     ([SearchCall (buildElasticSearchQuery None None None)],
      Inr (make_connection [] 0 20 0 ''elasticsearch'')) \<and>
   compensations True es_down pg_count0 pg_none None None None =
     ([SearchCall (buildElasticSearchQuery None None None),
       QueryCall (CountQuery []) [],
       QueryCall (DataQuery [] [(''created_at'', True)] 1 2) [vint 20, vint 0]],
      Inr (make_connection [] 0 20 0 ''postgresql''))"
  using primary_path_result [of es_one_hit "''es''" pg_none "''pg''" "[]"
          "es_empty (Some (TotalObj 0))" None None None pg_count0 pg_none]
        primary_path_result [of "es_empty (Some (TotalObj 0))" "''es''" pg_none "''pg''" "[]"
          es_down None None None pg_count0 pg_none]
  by (simp add: es_one_hit_def es_down_def es_empty_def pg_none_def pg_count0_def
      page_limit_def page_offset_def num_or_def hit_row_def blank_record_def
      compensations_pg_def buildWhereClause_def buildOrderByClause_def)

section \<open>Properties of pagination\<close>

lemma page_limit_le: "page_limit p \<le> 100"
  by (simp add: page_limit_def)

lemma es_size_build: "es_size (buildElasticSearchQuery f s p) = page_limit p"
  by (simp add: buildElasticSearchQuery_def split: option.splits)

lemma compensations_pg_calls:
  "c \<in> set (fst (compensations_pg count query cq dq ps l ofs)) \<Longrightarrow>
   c = QueryCall cq ps \<or> c = QueryCall dq (ps @ [vint l, vint ofs])"
  by (auto simp: compensations_pg_def split: sum.splits)

lemma compensations_calls:
  assumes "c \<in> set (fst (compensations en search count query f s p))"
  shows "c = SearchCall (buildElasticSearchQuery f s p) \<or>
         c = QueryCall (CountQuery (fst (buildWhereClause f))) (snd (buildWhereClause f)) \<or>
         c = QueryCall (DataQuery (fst (buildWhereClause f)) (buildOrderByClause s)
                 (length (snd (buildWhereClause f)) + 1) (length (snd (buildWhereClause f)) + 2))
               (snd (buildWhereClause f) @ [vint (page_limit p), vint (page_offset p)])"
proof -
  obtain cds ps where bw: "buildWhereClause f = (cds, ps)" by (cases "buildWhereClause f")
  let ?pg = "compensations_pg count query (CountQuery cds)
               (DataQuery cds (buildOrderByClause s) (length ps + 1) (length ps + 2)) ps
               (page_limit p) (page_offset p)"
  from assms bw have "c = SearchCall (buildElasticSearchQuery f s p) \<or> c \<in> set (fst ?pg)"
    by (auto simp: compensations_def Let_def split: if_splits sum.splits option.splits)
  then show ?thesis
  proof
    assume "c = SearchCall (buildElasticSearchQuery f s p)" then show ?thesis by simp
  next
    assume "c \<in> set (fst ?pg)"
    from compensations_pg_calls [OF this] show ?thesis by (simp add: bw)
  qed
qed

lemma compensations_page_sizes:
  assumes "c \<in> set (fst (compensations en search count query f s p))"
  shows "call_page_size c = None \<or> call_page_size c = Some (vint (page_limit p))"
  using compensations_calls [OF assms] by (auto simp: es_size_build nth_append)

text \<open>
  C8. Whatever pagination the caller supplies, the page size computed by the list resolver is
  at most 100; every call the resolver makes, to the search store or to the relational store,
  that carries a page size carries exactly this value; and a requested limit above 100 yields
  the page size 100.
\<close>

theorem page_size_clamped:
  "page_limit p \<le> 100 \<and>
   (\<forall>c \<in> set (fst (compensations en search count query f s p)).
      call_page_size c = None \<or> call_page_size c = Some (vint (page_limit p))) \<and>
   (\<forall>n. Option.bind p limit = Some n \<and> n > 100 \<longrightarrow> page_limit p = 100)"
proof (intro conjI ballI allI impI)
  show "page_limit p \<le> 100" by (rule page_limit_le)
next
  fix c assume "c \<in> set (fst (compensations en search count query f s p))"
  then show "call_page_size c = None \<or> call_page_size c = Some (vint (page_limit p))"
    by (rule compensations_page_sizes)
next
  fix n assume "Option.bind p limit = Some n \<and> n > 100"
  then show "page_limit p = 100" by (simp add: page_limit_def num_or_def)
qed

theorem page_size_clamped_witness:
  "page_limit (Some \<lparr>limit = Some 500, offset = None\<rparr>) = 100 \<and>
   map call_page_size
     (fst (compensations True es_down pg_count0 pg_none None None
        (Some \<lparr>limit = Some 500, offset = None\<rparr>))) =
     [Some (vint 100), None, Some (vint 100)]"
  using page_size_clamped [of "Some \<lparr>limit = Some 500, offset = None\<rparr>" True es_down
          pg_count0 pg_none None None]
  by (simp add: page_limit_def page_offset_def num_or_def compensations_def
      compensations_pg_def es_down_def pg_count0_def pg_none_def buildWhereClause_def
      buildOrderByClause_def buildElasticSearchQuery_def)

text \<open>
  C10. A requested limit of 0 becomes the default 20; every other limit up to 100, negative
  ones included, is used as it is; a limit above 100 becomes 100, the only bound that is
  enforced; and a negative limit is the page size of every call the list resolver makes to
  either store.
\<close>

theorem limit_zero_defaults_negative_passes:
  "(Option.bind p limit = Some 0 \<longrightarrow> page_limit p = 20) \<and>
   (\<forall>n. Option.bind p limit = Some n \<and> n \<noteq> 0 \<and> n \<le> 100 \<longrightarrow> page_limit p = n) \<and>
   (\<forall>n. Option.bind p limit = Some n \<and> n > 100 \<longrightarrow> page_limit p = 100) \<and>
   (\<forall>n. Option.bind p limit = Some n \<and> n < 0 \<longrightarrow>
      es_size (buildElasticSearchQuery f s p) = n \<and>
      (\<forall>c \<in> set (fst (compensations en search count query f s p)).
         call_page_size c = None \<or> call_page_size c = Some (vint n)))"
proof (intro conjI allI impI ballI)
  assume "Option.bind p limit = Some 0"
  then show "page_limit p = 20" by (simp add: page_limit_def num_or_def)
next
  fix n assume "Option.bind p limit = Some n \<and> n \<noteq> 0 \<and> n \<le> 100"
  then show "page_limit p = n" by (simp add: page_limit_def num_or_def)
next
  fix n assume "Option.bind p limit = Some n \<and> n > 100"
  then show "page_limit p = 100" by (simp add: page_limit_def num_or_def)
next
  fix n assume "Option.bind p limit = Some n \<and> n < 0"
  then show "es_size (buildElasticSearchQuery f s p) = n"
    by (simp add: es_size_build page_limit_def num_or_def)
next
  fix n c
  assume n: "Option.bind p limit = Some n \<and> n < 0"
    and c: "c \<in> set (fst (compensations en search count query f s p))"
  from n have "page_limit p = n" by (simp add: page_limit_def num_or_def)
  with compensations_page_sizes [OF c]
  show "call_page_size c = None \<or> call_page_size c = Some (vint n)" by simp
qed

theorem limit_zero_defaults_negative_passes_witness:
  "page_limit (Some \<lparr>limit = Some 0, offset = None\<rparr>) = 20 \<and>
   page_limit (Some \<lparr>limit = Some (- 5), offset = None\<rparr>) = - 5 \<and>
   page_limit (Some \<lparr>limit = Some 500, offset = None\<rparr>) = 100 \<and>
   map call_page_size
     (fst (compensations True es_down pg_count0 pg_none None None
        (Some \<lparr>limit = Some (- 5), offset = None\<rparr>))) =
     [Some (vint (- 5)), None, Some (vint (- 5))]"
  using limit_zero_defaults_negative_passes [of "Some \<lparr>limit = Some 0, offset = None\<rparr>"]
        limit_zero_defaults_negative_passes [of "Some \<lparr>limit = Some 500, offset = None\<rparr>"]
        limit_zero_defaults_negative_passes [of "Some \<lparr>limit = Some (- 5), offset = None\<rparr>"
          None None True es_down pg_count0 pg_none]
  by (simp add: page_limit_def page_offset_def num_or_def compensations_def
      compensations_pg_def es_down_def pg_count0_def pg_none_def buildWhereClause_def
      buildOrderByClause_def buildElasticSearchQuery_def)

section \<open>Properties of the record transformer\<close>

lemma ulp_small: "m < 2 ^ 53 \<Longrightarrow> ulp_exp m = 0"
  by (subst ulp_exp.simps) simp

lemma round_small: "m < 2 ^ 53 \<Longrightarrow> round_magnitude m = m"
  by (simp add: round_magnitude_def ulp_small)

lemma toDouble_small: "0 \<le> n \<Longrightarrow> n < 2 ^ 53 \<Longrightarrow> toDouble n = n"
proof -
  assume a: "0 \<le> n" "n < 2 ^ 53"
  then show ?thesis by (simp add: toDouble_def round_small)
qed


lemma decimal_base: "decimal 12000000 = ''12000000''"
  by code_simp

lemma decimal_bonus: "decimal 500000 = ''500000''"
  by code_simp

lemma decimal_zero: "decimal 0 = ''0''"
  by code_simp

lemma concatenated_number: "string_to_number ''120000005000000'' = Some 120000005000000"
  by code_simp

lemma transformRecord_unfold:
  "transformRecord r = compensation_record.extend r
     (search_document.fields
        (js_plus (js_plus (or_zero (annual_base_pay r)) (or_zero (annual_bonus r)))
           (or_zero (stock_value r)))
        (compensation_range_of
           (js_plus (js_plus (or_zero (annual_base_pay r)) (or_zero (annual_bonus r)))
              (or_zero (stock_value r))))
        (experience_level_of (rat_or (years_experience_industry r) 0)))"
  by (simp add: transformRecord_def Let_def)

lemma transformRecord_total:
  "total_compensation (transformRecord r) =
     js_plus (js_plus (or_zero (annual_base_pay r)) (or_zero (annual_bonus r)))
       (or_zero (stock_value r))"
  unfolding transformRecord_unfold
  by (cases r) (simp add: compensation_record.extend_def search_document.fields_def)

lemma transformRecord_range:
  "compensation_range (transformRecord r) =
     compensation_range_of (total_compensation (transformRecord r))"
  unfolding transformRecord_unfold
  by (cases r) (simp add: compensation_record.extend_def search_document.fields_def)

lemma amount_nonneg: "number_or_absent x \<Longrightarrow> 0 \<le> amount x"
  by (auto simp: number_or_absent_def amount_def split: option.splits money.splits)

lemma or_zero_number:
  "number_or_absent x \<Longrightarrow> amount x < 2 ^ 53 \<Longrightarrow> or_zero x = JNum (amount x)"
  by (auto simp: number_or_absent_def amount_def or_zero_def toDouble_small
      split: option.splits money.splits)

lemma dollars_less_iff: "((of_int t :: rat) / 100 < of_int k) = (t < k * 100)"
proof -
  have "((of_int t :: rat) / 100 < of_int k) = ((of_int t :: rat) < of_int k * 100)"
    by (simp add: pos_divide_less_eq)
  also have "\<dots> = ((of_int t :: rat) < of_int (k * 100))" by simp
  also have "\<dots> = (t < k * 100)" by (rule of_int_less_iff)
  finally show ?thesis .
qed

lemma compensation_range_cents:
  "compensation_range_of (JNum t) =
     (if t < 5000000 then ''Entry Level'' else if t < 10000000 then ''Mid Level''
      else if t < 20000000 then ''Senior Level'' else ''Executive Level'')"
proof -
  have "((of_int t :: rat) / 100 < 50000) = (t < 5000000)"
    using dollars_less_iff [of t 50000] by simp
  moreover have "((of_int t :: rat) / 100 < 100000) = (t < 10000000)"
    using dollars_less_iff [of t 100000] by simp
  moreover have "((of_int t :: rat) / 100 < 200000) = (t < 20000000)"
    using dollars_less_iff [of t 200000] by simp
  ultimately show ?thesis unfolding compensation_range_of_def Let_def by simp
qed

lemma text_total:
  "total_compensation (transformRecord
      (blank_record\<lparr>annual_base_pay := Some (AsText 12000000),
                     annual_bonus := Some (AsText 500000)\<rparr>)) = JStr ''120000005000000''"
  by (simp add: transformRecord_total blank_record_def or_zero_def decimal_base decimal_bonus decimal_zero)

lemma big_total:
  "total_compensation (transformRecord
      (blank_record\<lparr>annual_base_pay := Some (AsNumber 9007199254740992),
                     annual_bonus := Some (AsNumber 1)\<rparr>)) = JNum 9007199254740992"
proof -
  have a: "toDouble 9007199254740992 = 9007199254740992" by code_simp
  have b: "toDouble 1 = 1" by code_simp
  have c: "toDouble 9007199254740993 = 9007199254740992" by code_simp
  show ?thesis
    by (simp add: transformRecord_total blank_record_def or_zero_def a b c)
qed

text \<open>
  C4, as stated, fails in three ways. The label: for a record with no money fields the total
  is 0 and the bracket written is \<open>Entry Level\<close>, not \<open>Entry\<close>. The sum, for a row
  as \<open>pool.query\<close> delivers it: with base pay and bonus given as the texts
  \<open>12000000\<close> and \<open>500000\<close> the total is the concatenation
  \<open>120000005000000\<close> and the bracket is \<open>Executive Level\<close>, where the sum 12500000
  is in the bracket below. The sum of numbers: \<open>2^53\<close> plus 1 is \<open>2^53\<close>.
\<close>

theorem bracket_label_counterexample:
  "total_compensation (transformRecord blank_record) = JNum 0 \<and>
   compensation_range (transformRecord blank_record) = ''Entry Level'' \<and>
   compensation_range (transformRecord blank_record) \<noteq> ''Entry'' \<and>
   total_compensation (transformRecord
      (blank_record\<lparr>annual_base_pay := Some (AsText 12000000),
                     annual_bonus := Some (AsText 500000)\<rparr>)) = JStr ''120000005000000'' \<and>
   compensation_range (transformRecord
      (blank_record\<lparr>annual_base_pay := Some (AsText 12000000),
                     annual_bonus := Some (AsText 500000)\<rparr>)) = ''Executive Level'' \<and>
   total_compensation (transformRecord
      (blank_record\<lparr>annual_base_pay := Some (AsNumber 9007199254740992),
                     annual_bonus := Some (AsNumber 1)\<rparr>)) = JNum 9007199254740992"
proof -
  have z: "toDouble 0 = 0" by code_simp
  have "total_compensation (transformRecord blank_record) = JNum 0"
    by (simp add: transformRecord_total blank_record_def or_zero_def z)
  moreover have "compensation_range_of (JStr ''120000005000000'') = ''Executive Level''"
    by (simp add: compensation_range_of_def concatenated_number)
  ultimately show ?thesis
    by (simp add: transformRecord_range compensation_range_cents text_total big_total)
qed

text \<open>
  C4, amended. For a record whose money fields are absent or numbers holding non-negative
  integers that add up to less than \<open>2^53\<close>, the total compensation of the search document,
  in cents, is base pay plus bonus plus stock value with absent fields counted as zero, and
  the bracket is \<open>Entry Level\<close> when the total is below 50,000 currency units,
  \<open>Mid Level\<close> below 100,000, \<open>Senior Level\<close> below 200,000 and
  \<open>Executive Level\<close> otherwise.
\<close>

theorem transformRecord_total_and_bracket:
  assumes "number_or_absent (annual_base_pay r)" and "number_or_absent (annual_bonus r)"
    and "number_or_absent (stock_value r)"
    and "amount (annual_base_pay r) + amount (annual_bonus r) + amount (stock_value r) < 2 ^ 53"
  shows "total_compensation (transformRecord r) =
           JNum (amount (annual_base_pay r) + amount (annual_bonus r) + amount (stock_value r)) \<and>
         compensation_range (transformRecord r) =
           (if amount (annual_base_pay r) + amount (annual_bonus r) + amount (stock_value r)
                 < 50000 * 100 then ''Entry Level''
            else if amount (annual_base_pay r) + amount (annual_bonus r) + amount (stock_value r)
                 < 100000 * 100 then ''Mid Level''
            else if amount (annual_base_pay r) + amount (annual_bonus r) + amount (stock_value r)
                 < 200000 * 100 then ''Senior Level''
            else ''Executive Level'')"
proof -
  let ?a = "amount (annual_base_pay r)" and ?b = "amount (annual_bonus r)"
    and ?c = "amount (stock_value r)"
  have nn: "0 \<le> ?a" "0 \<le> ?b" "0 \<le> ?c" using assms(1-3) by (simp_all add: amount_nonneg)
  with assms(4) have small: "?a < 2 ^ 53" "?b < 2 ^ 53" "?c < 2 ^ 53" "?a + ?b < 2 ^ 53"
    by linarith+
  have ab: "toDouble (?a + ?b) = ?a + ?b" using nn small by (simp add: toDouble_small)
  have abc: "toDouble (?a + ?b + ?c) = ?a + ?b + ?c" using nn assms(4) by (simp add: toDouble_small)
  have oa: "or_zero (annual_base_pay r) = JNum ?a" using assms(1) small(1) by (rule or_zero_number)
  have ob: "or_zero (annual_bonus r) = JNum ?b" using assms(2) small(2) by (rule or_zero_number)
  have oc: "or_zero (stock_value r) = JNum ?c" using assms(3) small(3) by (rule or_zero_number)
  have tot: "total_compensation (transformRecord r) = JNum (?a + ?b + ?c)"
    unfolding transformRecord_total oa ob oc by (simp add: ab abc)
  show ?thesis
    by (simp add: tot transformRecord_range compensation_range_cents)
qed

theorem transformRecord_total_and_bracket_witness:
  "total_compensation (transformRecord
      (blank_record\<lparr>annual_base_pay := Some (AsNumber 12000000),
                     annual_bonus := Some (AsNumber 500000)\<rparr>)) = JNum 12500000 \<and>
   compensation_range (transformRecord
      (blank_record\<lparr>annual_base_pay := Some (AsNumber 12000000),
                     annual_bonus := Some (AsNumber 500000)\<rparr>)) = ''Senior Level''"
  using transformRecord_total_and_bracket
          [of "blank_record\<lparr>annual_base_pay := Some (AsNumber 12000000),
                               annual_bonus := Some (AsNumber 500000)\<rparr>"]
  by (simp add: blank_record_def number_or_absent_def amount_def)

section \<open>Properties of the bulk synchronization engine\<close>

lemma fetched_windows_simps:
  "fetched_windows [] = []"
  "fetched_windows (FetchWindow l ofs # evs) = (l, ofs) # fetched_windows evs"
  "fetched_windows (BulkWrite ops # evs) = fetched_windows evs"
  "fetched_windows (Wait ms # evs) = fetched_windows evs"
  "fetched_windows (CountRows # evs) = fetched_windows evs"
  "fetched_windows (Refresh # evs) = fetched_windows evs"
  "fetched_windows (CountDocs # evs) = fetched_windows evs"
  "fetched_windows (xs @ ys) = fetched_windows xs @ fetched_windows ys"
  by (simp_all add: fetched_windows_def List.map_filter_def)

lemma bulk_sizes_simps:
  "bulk_sizes [] = []"
  "bulk_sizes (FetchWindow l ofs # evs) = bulk_sizes evs"
  "bulk_sizes (BulkWrite ops # evs) = length ops # bulk_sizes evs"
  "bulk_sizes (Wait ms # evs) = bulk_sizes evs"
  "bulk_sizes (CountRows # evs) = bulk_sizes evs"
  "bulk_sizes (Refresh # evs) = bulk_sizes evs"
  "bulk_sizes (CountDocs # evs) = bulk_sizes evs"
  "bulk_sizes (xs @ ys) = bulk_sizes xs @ bulk_sizes ys"
  by (simp_all add: bulk_sizes_def List.map_filter_def)

lemma bulk_retry_no_fetch:
  "fetched_windows (fst (bulk_retry attempt ops n retries st)) = [] \<and>
   CountRows \<notin> set (fst (bulk_retry attempt ops n retries st))"
proof (induction attempt ops n retries st rule: bulk_retry.induct)
  case (1 attempt ops n retries st)
  show ?case
  proof (cases "retries < MAX_RETRIES")
    case False
    then show ?thesis by (subst (1 2) bulk_retry.simps) (simp add: fetched_windows_simps)
  next
    case True
    show ?thesis
    proof (cases "attempt retries")
      case (Inr resp)
      with True show ?thesis
        by (subst (1 2) bulk_retry.simps) (simp add: fetched_windows_simps)
    next
      case (Inl err)
      show ?thesis
      proof (cases "Suc retries \<ge> MAX_RETRIES")
        case t: True
        from "1.IH"(1) [OF True Inl t] True Inl t show ?thesis
          by (subst (1 2) bulk_retry.simps) (simp add: fetched_windows_simps Let_def)
      next
        case f: False
        from "1.IH"(2) [OF True Inl f] True Inl f show ?thesis
          by (subst (1 2) bulk_retry.simps) (simp add: fetched_windows_simps Let_def)
      qed
    qed
  qed
qed

lemma bulk_retry_first_ok:
  "attempt 0 = Inr resp \<Longrightarrow>
   bulk_retry attempt ops n 0 st = ([BulkWrite ops], (fst st + n, snd st + errorCount resp))"
  by (subst bulk_retry.simps) (simp add: MAX_RETRIES_def)

lemma bulk_retry_all_fail:
  assumes "\<And>k. isl (attempt k)"
  shows "bulk_retry attempt ops n 0 st =
     ([BulkWrite ops, Wait 1000, BulkWrite ops, Wait 2000, BulkWrite ops], (fst st, snd st + n))"
proof -
  obtain e0 where e0: "attempt 0 = Inl e0" using assms[of 0] by (cases "attempt 0") auto
  obtain e1 where e1: "attempt (Suc 0) = Inl e1" using assms[of "Suc 0"] by (cases "attempt (Suc 0)") auto
  obtain e2 where e2: "attempt (Suc (Suc 0)) = Inl e2" using assms[of "Suc (Suc 0)"] by (cases "attempt (Suc (Suc 0))") auto
  have r3: "bulk_retry attempt ops n (Suc (Suc (Suc 0))) (fst st, snd st + n) = ([], (fst st, snd st + n))"
    by (subst bulk_retry.simps) (simp add: MAX_RETRIES_def)
  have r2: "bulk_retry attempt ops n (Suc (Suc 0)) st = ([BulkWrite ops], (fst st, snd st + n))"
    by (subst bulk_retry.simps) (simp add: MAX_RETRIES_def e2 r3)
  have r1: "bulk_retry attempt ops n (Suc 0) st = ([BulkWrite ops, Wait 2000, BulkWrite ops], (fst st, snd st + n))"
    by (subst bulk_retry.simps) (simp add: MAX_RETRIES_def e1 r2)
  show ?thesis
    by (subst bulk_retry.simps) (simp add: MAX_RETRIES_def e0 r1)
qed

lemma upt_shift:
  "map f [0..<Suc m] = f 0 # map (\<lambda>k. f (Suc k)) [0..<m]"
proof -
  have "[0..<Suc m] = 0 # map Suc [0..<m]" by (simp add: upt_conv_Cons map_Suc_upt del: upt_Suc)
  then show ?thesis by (simp add: comp_def del: upt_Suc)
qed

lemma last_window_count:
  assumes "ofs < (N::nat)" "N \<le> ofs + 1000"
  shows "(N - ofs + 999) div 1000 = 1"
proof -
  have a: "1000 * 1 \<le> N - ofs + 999" using assms by linarith
  have "N - ofs + 999 < 2000" using assms by linarith
  then have b: "N - ofs + 999 < 1000 * Suc 1" by simp
  from a b show ?thesis by (rule div_nat_eqI)
qed

lemma inner_window_count:
  assumes "\<not> N \<le> ofs + (1000::nat)"
  shows "(N - ofs + 999) div 1000 = Suc ((N - (ofs + 1000) + 999) div 1000)"
proof -
  from assms have "N - ofs + 999 = (N - (ofs + 1000) + 999) + 1000" by linarith
  then have "(N - ofs + 999) div 1000 = ((N - (ofs + 1000) + 999) + 1000) div 1000"
    by (rule arg_cong)
  also have "\<dots> = (N - (ofs + 1000) + 999) div 1000 + 1"
    by (rule div_add_self2) simp
  finally show ?thesis by (simp only: Suc_eq_plus1)
qed

lemma windows_arith:
  assumes "ofs < (N::nat)"
  shows "(N - ofs + 999) div 1000 = Suc ((N - (ofs + 1000) + 999) div 1000)"
proof (cases "N \<le> ofs + 1000")
  case True
  then have "N - (ofs + 1000) = 0" by simp
  with last_window_count [OF assms True] show ?thesis by simp
next
  case False
  then show ?thesis by (rule inner_window_count)
qed

lemma sync_loop_done: "\<not> ofs < tot \<Longrightarrow> sync_loop env tot ofs st = ([], Inr st)"
  by (subst sync_loop.simps) simp

lemma sync_loop_empty:
  "ofs < tot \<Longrightarrow> fetch env BATCH_SIZE ofs = Inr [] \<Longrightarrow>
   sync_loop env tot ofs st = ([FetchWindow BATCH_SIZE ofs], Inr st)"
  by (subst sync_loop.simps) simp

lemma sync_loop_step:
  assumes "ofs < tot" "fetch env BATCH_SIZE ofs = Inr records" "records \<noteq> []"
  shows "sync_loop env tot ofs st =
    (FetchWindow BATCH_SIZE ofs #
       fst (bulk_retry (bulk env ofs) (bulk_operations records) (length records) 0 st) @
       [Wait 100] @
       fst (sync_loop env tot (ofs + BATCH_SIZE)
             (snd (bulk_retry (bulk env ofs) (bulk_operations records) (length records) 0 st))),
     snd (sync_loop env tot (ofs + BATCH_SIZE)
             (snd (bulk_retry (bulk env ofs) (bulk_operations records) (length records) 0 st))))"
  using assms by (subst sync_loop.simps) (simp add: Let_def)

lemma snapshot_fetch:
  "fetch (snapshot_env table b) l ofs = Inr (take l (drop ofs table))"
  "bulk (snapshot_env table b) = b"
  "count_rows (snapshot_env table b) = Inr (length table)"
  by (simp_all add: snapshot_env_def)

lemma snapshot_windows:
  "fetched_windows (fst (sync_loop (snapshot_env table b) (length table) ofs st)) =
     map (\<lambda>k. (BATCH_SIZE, ofs + k * BATCH_SIZE)) [0..<(length table - ofs + 999) div 1000]"
proof (induction "length table - ofs" arbitrary: ofs st rule: less_induct)
  case less
  show ?case
  proof (cases "ofs < length table")
    case False
    then have "(length table - ofs + 999) div 1000 = 0" by simp
    with False show ?thesis by (simp add: sync_loop_done fetched_windows_simps)
  next
    case True
    let ?records = "take BATCH_SIZE (drop ofs table)"
    have ne: "?records \<noteq> []" using True by (simp add: BATCH_SIZE_def)
    let ?b = "bulk_retry (b ofs) (bulk_operations ?records) (length ?records) 0 st"
    have dec: "length table - (ofs + BATCH_SIZE) < length table - ofs"
      using True by (simp add: BATCH_SIZE_def)
    have "fetched_windows (fst (sync_loop (snapshot_env table b) (length table) ofs st)) =
          (BATCH_SIZE, ofs) #
          fetched_windows (fst (sync_loop (snapshot_env table b) (length table)
             (ofs + BATCH_SIZE) (snd ?b)))"
      using sync_loop_step [OF True snapshot_fetch(1) ne, of b st]
      by (simp add: fetched_windows_simps bulk_retry_no_fetch snapshot_fetch)
    also have "\<dots> = (BATCH_SIZE, ofs) #
       map (\<lambda>k. (BATCH_SIZE, ofs + BATCH_SIZE + k * BATCH_SIZE))
         [0..<(length table - (ofs + BATCH_SIZE) + 999) div 1000]"
      using less [OF dec] by simp
    also have "\<dots> = map (\<lambda>k. (BATCH_SIZE, ofs + k * BATCH_SIZE))
         [0..<Suc ((length table - (ofs + BATCH_SIZE) + 999) div 1000)]"
      by (simp only: upt_shift) simp
    also have "Suc ((length table - (ofs + BATCH_SIZE) + 999) div 1000) =
               (length table - ofs + 999) div 1000"
      using windows_arith [OF True] by (simp add: BATCH_SIZE_def)
    finally show ?thesis .
  qed
qed

lemma snapshot_bulk_sizes:
  assumes ok: "\<And>w. \<not> isl (b w 0)"
  shows "bulk_sizes (fst (sync_loop (snapshot_env table b) (length table) ofs st)) =
     map (\<lambda>k. min BATCH_SIZE (length table - (ofs + k * BATCH_SIZE)))
       [0..<(length table - ofs + 999) div 1000]"
proof (induction "length table - ofs" arbitrary: ofs st rule: less_induct)
  case less
  show ?case
  proof (cases "ofs < length table")
    case False
    then have "(length table - ofs + 999) div 1000 = 0" by simp
    with False show ?thesis by (simp add: sync_loop_done bulk_sizes_simps)
  next
    case True
    let ?records = "take BATCH_SIZE (drop ofs table)"
    have ne: "?records \<noteq> []" using True by (simp add: BATCH_SIZE_def)
    obtain resp where resp: "b ofs 0 = Inr resp" using ok [of ofs] by (cases "b ofs 0") auto
    let ?st = "(fst st + length ?records, snd st + errorCount resp)"
    have br: "bulk_retry (b ofs) (bulk_operations ?records) (length ?records) 0 st =
              ([BulkWrite (bulk_operations ?records)], ?st)"
      using resp by (rule bulk_retry_first_ok)
    have dec: "length table - (ofs + BATCH_SIZE) < length table - ofs"
      using True by (simp add: BATCH_SIZE_def)
    have "bulk_sizes (fst (sync_loop (snapshot_env table b) (length table) ofs st)) =
          min BATCH_SIZE (length table - ofs) #
          bulk_sizes (fst (sync_loop (snapshot_env table b) (length table)
             (ofs + BATCH_SIZE) ?st))"
    proof -
      have "sync_loop (snapshot_env table b) (length table) ofs st =
        (FetchWindow BATCH_SIZE ofs # [BulkWrite (bulk_operations ?records)] @ [Wait 100] @
           fst (sync_loop (snapshot_env table b) (length table) (ofs + BATCH_SIZE) ?st),
         snd (sync_loop (snapshot_env table b) (length table) (ofs + BATCH_SIZE) ?st))"
        using sync_loop_step [OF True snapshot_fetch(1) ne, of b st]
        by (simp only: snapshot_fetch br fst_conv snd_conv)
      then show ?thesis
        by (simp add: bulk_sizes_simps bulk_operations_def min.commute)
    qed
    also have "\<dots> = min BATCH_SIZE (length table - ofs) #
       map (\<lambda>k. min BATCH_SIZE (length table - (ofs + BATCH_SIZE + k * BATCH_SIZE)))
         [0..<(length table - (ofs + BATCH_SIZE) + 999) div 1000]"
      using less [OF dec] by simp
    also have "\<dots> = map (\<lambda>k. min BATCH_SIZE (length table - (ofs + k * BATCH_SIZE)))
         [0..<Suc ((length table - (ofs + BATCH_SIZE) + 999) div 1000)]"
      by (simp only: upt_shift) (simp add: add.assoc)
    also have "Suc ((length table - (ofs + BATCH_SIZE) + 999) div 1000) =
               (length table - ofs + 999) div 1000"
      using windows_arith [OF True] by (simp add: BATCH_SIZE_def)
    finally show ?thesis .
  qed
qed

lemma sync_loop_no_count: "CountRows \<notin> set (fst (sync_loop env tot ofs st))"
proof (induction env tot ofs st rule: sync_loop.induct)
  case (1 env tot ofs st)
  show ?case
  proof (cases "ofs < tot")
    case False then show ?thesis by (simp add: sync_loop_done)
  next
    case True
    show ?thesis
    proof (cases "fetch env BATCH_SIZE ofs")
      case (Inl err)
      with True show ?thesis by (subst sync_loop.simps) simp
    next
      case (Inr records)
      show ?thesis
      proof (cases "records = []")
        case e: True
        with True Inr show ?thesis by (simp add: sync_loop_empty)
      next
        case ne: False
        then have l: "length records \<noteq> 0" by simp
        from "1.IH" [OF True Inr l refl] bulk_retry_no_fetch
        show ?thesis by (simp add: sync_loop_step [OF True Inr ne])
      qed
    qed
  qed
qed

lemma stream_events:
  "\<exists>tail. fst (streamDataToElasticSearch env) = CountRows # tail \<and> CountRows \<notin> set tail"
  using sync_loop_no_count [of env _ 0 "(0, 0)"]
  by (auto simp: streamDataToElasticSearch_def Let_def split: sum.splits option.splits)

lemma stream_counts_once:
  "length (filter (\<lambda>e. e = CountRows) (fst (streamDataToElasticSearch env))) = 1"
proof -
  obtain tail where t: "fst (streamDataToElasticSearch env) = CountRows # tail" "CountRows \<notin> set tail"
    using stream_events by blast
  then have "filter (\<lambda>e. e = CountRows) tail = []" by (auto simp: filter_empty_conv)
  with t show ?thesis by simp
qed

lemma stream_snapshot_events:
  "table \<noteq> [] \<Longrightarrow>
   \<exists>tail. fst (streamDataToElasticSearch (snapshot_env table b)) =
      CountRows # fst (sync_loop (snapshot_env table b) (length table) 0 (0, 0)) @ tail \<and>
      fetched_windows tail = [] \<and> bulk_sizes tail = []"
  by (auto simp: streamDataToElasticSearch_def Let_def snapshot_env_def fetched_windows_simps bulk_sizes_simps
      split: sum.splits option.splits)

lemma shrinking_fetch:
  "fetch shrinking_env l ofs = Inr (take l (drop ofs (replicate 500 blank_record)))"
  "bulk shrinking_env = bulk_ok"
  "count_rows shrinking_env = Inr 2500"
  "refresh shrinking_env = None"
  "count_docs shrinking_env = Inr 500"
  by (simp_all add: shrinking_env_def)

lemma shrinking_loop:
  "sync_loop shrinking_env 2500 0 (0, 0) =
     ([FetchWindow 1000 0, BulkWrite (bulk_operations (replicate 500 blank_record)), Wait 100,
       FetchWindow 1000 1000], Inr (500, 0))"
proof -
  have f0: "fetch shrinking_env BATCH_SIZE 0 = Inr (replicate 500 blank_record)"
    by (simp add: shrinking_fetch BATCH_SIZE_def)
  have f1: "fetch shrinking_env BATCH_SIZE (0 + BATCH_SIZE) = Inr []"
    by (simp add: shrinking_fetch BATCH_SIZE_def)
  have b0: "bulk_retry (bulk shrinking_env 0) (bulk_operations (replicate 500 blank_record))
              (length (replicate 500 blank_record)) 0 (0, 0) =
            ([BulkWrite (bulk_operations (replicate 500 blank_record))], (500, 0))"
    by (subst bulk_retry_first_ok [where resp = "\<lparr>errors = False, items = []\<rparr>"])
       (simp_all add: shrinking_fetch bulk_ok_def errorCount_def)
  have l1: "sync_loop shrinking_env 2500 (0 + BATCH_SIZE) (500, 0) =
              ([FetchWindow BATCH_SIZE (0 + BATCH_SIZE)], Inr (500, 0))"
    by (rule sync_loop_empty [OF _ f1]) (simp add: BATCH_SIZE_def)
  have "sync_loop shrinking_env 2500 0 (0, 0) =
     (FetchWindow BATCH_SIZE 0 # [BulkWrite (bulk_operations (replicate 500 blank_record))] @
        [Wait 100] @ [FetchWindow BATCH_SIZE (0 + BATCH_SIZE)], Inr (500, 0))"
    using sync_loop_step [OF _ f0, of 2500 "(0, 0)"]
    by (simp only: b0 l1 fst_conv snd_conv) simp
  then show ?thesis by (simp add: BATCH_SIZE_def)
qed

text \<open>
  C5, as stated, fails on the stopping rule: a window shorter than the window size does not
  end the run. When the table was counted at 2500 rows and the first window returns 500, the
  engine still requests the window at offset 1000, and stops only because that one is empty.
\<close>

theorem short_window_counterexample:
  "fetched_windows (fst (streamDataToElasticSearch shrinking_env)) = [(1000, 0), (1000, 1000)] \<and>
   bulk_sizes (fst (streamDataToElasticSearch shrinking_env)) = [500]"
  by (simp add: streamDataToElasticSearch_def shrinking_fetch shrinking_loop
      fetched_windows_simps bulk_sizes_simps bulk_operations_def)

text \<open>
  C5, amended. The engine reads the relational count exactly once. The window loop stops when
  the offset has reached the count or when a window comes back empty; after a non-empty
  window, however short, it goes on to the window 1000 rows further. Over a table that does
  not change during the run the windows requested are \<open>LIMIT 1000\<close> at the offsets
  0, 1000, 2000, ... below the number of rows, and when every bulk request is accepted at its
  first attempt there is exactly one bulk request per window, carrying 1000 documents or, for
  the last window, the remainder. For 2500 rows these are three windows of 1000, 1000 and 500
  documents.
\<close>

theorem sync_windows:
  "length (filter (\<lambda>e. e = CountRows) (fst (streamDataToElasticSearch env))) = 1 \<and>
   (\<not> ofs < tot \<longrightarrow> sync_loop env tot ofs st = ([], Inr st)) \<and>
   (ofs < tot \<and> fetch env BATCH_SIZE ofs = Inr [] \<longrightarrow>
      sync_loop env tot ofs st = ([FetchWindow BATCH_SIZE ofs], Inr st)) \<and>
   (ofs < tot \<and> fetch env BATCH_SIZE ofs = Inr records \<and> records \<noteq> [] \<longrightarrow>
      fetched_windows (fst (sync_loop env tot ofs st)) =
        (BATCH_SIZE, ofs) #
        fetched_windows (fst (sync_loop env tot (ofs + BATCH_SIZE)
          (snd (bulk_retry (bulk env ofs) (bulk_operations records) (length records) 0 st))))) \<and>
   (table \<noteq> [] \<longrightarrow>
      fetched_windows (fst (streamDataToElasticSearch (snapshot_env table b))) =
        map (\<lambda>k. (1000, k * 1000)) [0..<(length table + 999) div 1000]) \<and>
   (table \<noteq> [] \<and> (\<forall>w. \<not> isl (b w 0)) \<longrightarrow>
      bulk_sizes (fst (streamDataToElasticSearch (snapshot_env table b))) =
        map (\<lambda>k. min 1000 (length table - k * 1000)) [0..<(length table + 999) div 1000])"
proof (intro conjI impI)
  show "length (filter (\<lambda>e. e = CountRows) (fst (streamDataToElasticSearch env))) = 1"
    by (rule stream_counts_once)
next
  assume "\<not> ofs < tot"
  then show "sync_loop env tot ofs st = ([], Inr st)" by (rule sync_loop_done)
next
  assume "ofs < tot \<and> fetch env BATCH_SIZE ofs = Inr []"
  then show "sync_loop env tot ofs st = ([FetchWindow BATCH_SIZE ofs], Inr st)"
    by (simp add: sync_loop_empty)
next
  assume a: "ofs < tot \<and> fetch env BATCH_SIZE ofs = Inr records \<and> records \<noteq> []"
  then have "ofs < tot" "fetch env BATCH_SIZE ofs = Inr records" "records \<noteq> []" by simp_all
  from sync_loop_step [OF this]
  show "fetched_windows (fst (sync_loop env tot ofs st)) =
        (BATCH_SIZE, ofs) #
        fetched_windows (fst (sync_loop env tot (ofs + BATCH_SIZE)
          (snd (bulk_retry (bulk env ofs) (bulk_operations records) (length records) 0 st))))"
    by (simp add: fetched_windows_simps bulk_retry_no_fetch)
next
  assume ne: "table \<noteq> []"
  from stream_snapshot_events [OF ne, of b] obtain tail where
    t: "fst (streamDataToElasticSearch (snapshot_env table b)) =
        CountRows # fst (sync_loop (snapshot_env table b) (length table) 0 (0, 0)) @ tail"
       "fetched_windows tail = []" by blast
  show "fetched_windows (fst (streamDataToElasticSearch (snapshot_env table b))) =
        map (\<lambda>k. (1000, k * 1000)) [0..<(length table + 999) div 1000]"
    using snapshot_windows [of table b 0 "(0, 0)"]
    by (simp add: t fetched_windows_simps BATCH_SIZE_def)
next
  assume a: "table \<noteq> [] \<and> (\<forall>w. \<not> isl (b w 0))"
  then have ne: "table \<noteq> []" and ok: "\<And>w. \<not> isl (b w 0)" by simp_all
  from stream_snapshot_events [OF ne, of b] obtain tail where
    t: "fst (streamDataToElasticSearch (snapshot_env table b)) =
        CountRows # fst (sync_loop (snapshot_env table b) (length table) 0 (0, 0)) @ tail"
       "bulk_sizes tail = []" by blast
  show "bulk_sizes (fst (streamDataToElasticSearch (snapshot_env table b))) =
        map (\<lambda>k. min 1000 (length table - k * 1000)) [0..<(length table + 999) div 1000]"
    using snapshot_bulk_sizes [of b table 0 "(0, 0)", OF ok]
    by (simp add: t bulk_sizes_simps BATCH_SIZE_def)
qed

theorem sync_windows_witness:
  "fetched_windows (fst (streamDataToElasticSearch
      (snapshot_env (replicate 2500 blank_record) bulk_ok))) =
     [(1000, 0), (1000, 1000), (1000, 2000)] \<and>
   bulk_sizes (fst (streamDataToElasticSearch
      (snapshot_env (replicate 2500 blank_record) bulk_ok))) = [1000, 1000, 500] \<and>
   sync_loop shrinking_env 2500 1000 (500, 0) = ([FetchWindow 1000 1000], Inr (500, 0)) \<and>
   sync_loop shrinking_env 2500 2500 (500, 0) = ([], Inr (500, 0)) \<and>
   fetched_windows (fst (sync_loop shrinking_env 2500 0 (0, 0))) = [(1000, 0), (1000, 1000)]"
  using sync_windows [of shrinking_env 1000 2500 "(500, 0)" "[]"
          "replicate 2500 blank_record" bulk_ok]
        sync_windows [of shrinking_env 2500 2500 "(500, 0)" "[]" "[]" bulk_ok]
        sync_windows [of shrinking_env 0 2500 "(0, 0)" "replicate 500 blank_record" "[]" bulk_ok]
  by (simp add: shrinking_fetch bulk_ok_def BATCH_SIZE_def upt_rec shrinking_loop
      fetched_windows_simps)

text \<open>
  C6. When every bulk request for a non-empty window throws, the engine sends the request
  exactly \<open>MAX_RETRIES\<close> = 3 times, waits 1 * 1000 ms after the first failure and
  2 * 1000 ms after the second, adds the number of rows of the window to the failed count,
  leaves the processed count unchanged, and continues with the window 1000 rows further; the
  outcome of the run is that of the remaining windows.
\<close>

theorem failed_window_retried_then_skipped:
  assumes "ofs < tot" and "fetch env BATCH_SIZE ofs = Inr records" and "records \<noteq> []"
    and "\<forall>k. isl (bulk env ofs k)"
  shows "bulk_sizes (fst (bulk_retry (bulk env ofs) (bulk_operations records) (length records) 0 (p, f))) =
           replicate MAX_RETRIES (length records) \<and>
         sync_loop env tot ofs (p, f) =
           ([FetchWindow BATCH_SIZE ofs,
             BulkWrite (bulk_operations records), Wait (1 * 1000),
             BulkWrite (bulk_operations records), Wait (2 * 1000),
             BulkWrite (bulk_operations records),
             Wait 100] @
            fst (sync_loop env tot (ofs + BATCH_SIZE) (p, f + length records)),
            snd (sync_loop env tot (ofs + BATCH_SIZE) (p, f + length records)))"
proof -
  from assms(4) have "\<And>k. isl (bulk env ofs k)" by simp
  from bulk_retry_all_fail [of "bulk env ofs", OF this]
  have br: "bulk_retry (bulk env ofs) (bulk_operations records) (length records) 0 (p, f) =
     ([BulkWrite (bulk_operations records), Wait 1000, BulkWrite (bulk_operations records),
       Wait 2000, BulkWrite (bulk_operations records)], (p, f + length records))"
    by simp
  have "bulk_sizes (fst (bulk_retry (bulk env ofs) (bulk_operations records) (length records) 0 (p, f))) =
           replicate MAX_RETRIES (length records)"
    unfolding br by (simp add: bulk_sizes_simps MAX_RETRIES_def bulk_operations_def numeral_3_eq_3)
  moreover have "sync_loop env tot ofs (p, f) =
           ([FetchWindow BATCH_SIZE ofs,
             BulkWrite (bulk_operations records), Wait (1 * 1000),
             BulkWrite (bulk_operations records), Wait (2 * 1000),
             BulkWrite (bulk_operations records),
             Wait 100] @
            fst (sync_loop env tot (ofs + BATCH_SIZE) (p, f + length records)),
            snd (sync_loop env tot (ofs + BATCH_SIZE) (p, f + length records)))"
    using sync_loop_step [OF assms(1-3), of "(p, f)"] by (simp add: br)
  ultimately show ?thesis by simp
qed

lemma second_window:
  "sync_loop (snapshot_env (replicate 1001 blank_record) bulk_first_window_down) 1001 1000 (0, 1000) =
     ([FetchWindow 1000 1000, BulkWrite (bulk_operations [blank_record]), Wait 100], Inr (1, 1000))"
proof -
  let ?env = "snapshot_env (replicate 1001 blank_record) bulk_first_window_down"
  have f: "fetch ?env BATCH_SIZE 1000 = Inr [blank_record]"
    by (simp add: snapshot_env_def BATCH_SIZE_def)
  have b: "bulk_retry (bulk ?env 1000) (bulk_operations [blank_record]) (length [blank_record]) 0 (0, 1000) =
            ([BulkWrite (bulk_operations [blank_record])], (1, 1000))"
    by (subst bulk_retry_first_ok [where resp = "\<lparr>errors = False, items = []\<rparr>"])
       (simp_all add: snapshot_env_def bulk_first_window_down_def errorCount_def)
  have d: "sync_loop ?env 1001 (1000 + BATCH_SIZE) (1, 1000) = ([], Inr (1, 1000))"
    by (rule sync_loop_done) (simp add: BATCH_SIZE_def)
  show ?thesis
    using sync_loop_step [OF _ f, of 1001 "(0, 1000)"]
    by (simp only: b d fst_conv snd_conv) (simp add: BATCH_SIZE_def)
qed

theorem failed_window_retried_then_skipped_witness:
  "sync_loop (snapshot_env (replicate 1001 blank_record) bulk_first_window_down) 1001 0 (0, 0) =
     ([FetchWindow 1000 0,
       BulkWrite (bulk_operations (replicate 1000 blank_record)), Wait 1000,
       BulkWrite (bulk_operations (replicate 1000 blank_record)), Wait 2000,
       BulkWrite (bulk_operations (replicate 1000 blank_record)), Wait 100,
       FetchWindow 1000 1000, BulkWrite (bulk_operations [blank_record]), Wait 100],
      Inr (1, 1000))"
proof -
  let ?env = "snapshot_env (replicate 1001 blank_record) bulk_first_window_down"
  have a: "(0::nat) < 1001" by simp
  have b: "fetch ?env BATCH_SIZE 0 = Inr (replicate 1000 blank_record)"
    by (simp add: snapshot_env_def BATCH_SIZE_def)
  have c: "replicate 1000 blank_record \<noteq> []" by simp
  have d: "\<forall>k. isl (bulk ?env 0 k)"
    by (simp add: snapshot_env_def bulk_first_window_down_def)
  from failed_window_retried_then_skipped [OF a b c d, of 0 0]
  have "sync_loop ?env 1001 0 (0, 0) =
     ([FetchWindow BATCH_SIZE 0,
       BulkWrite (bulk_operations (replicate 1000 blank_record)), Wait (1 * 1000),
       BulkWrite (bulk_operations (replicate 1000 blank_record)), Wait (2 * 1000),
       BulkWrite (bulk_operations (replicate 1000 blank_record)), Wait 100] @
      fst (sync_loop ?env 1001 (0 + BATCH_SIZE) (0, 0 + length (replicate 1000 blank_record))),
      snd (sync_loop ?env 1001 (0 + BATCH_SIZE) (0, 0 + length (replicate 1000 blank_record))))"
    by (rule conjunct2)
  then show ?thesis by (simp add: BATCH_SIZE_def second_window)
qed

section \<open>Properties of the change capture subscriber\<close>

text \<open>
  C7, as stated, fails: against a search store without the key, whose client raises the 404
  answer as an error, the handler takes its catch branch and logs a processing failure,
  whereas for a stored key it logs the deletion. The two events are not handled identically,
  and the missing key is not treated as a success.
\<close>

theorem missing_key_delete_counterexample:
  "on_notification (client_over []) (Some delete_k1) =
     ([DeleteDoc ''k1'', LogError ''Failed to process real-time update:''], Inr ()) \<and>
   on_notification (client_over [''k1'']) (Some delete_k1) =
     ([DeleteDoc ''k1'', LogDebug ''Real-time deleted document ID: k1''], Inr ())"
  by (simp add: on_notification_def client_over_def delete_k1_def)

text \<open>
  C7, amended. No error ever leaves the notification handler. For a delete event it calls the
  client's delete once for the key; when the call returns it logs the deletion, and when the
  call throws, as it does for a key with no document, it logs a processing failure and drops
  the event.
\<close>

theorem delete_never_raises:
  "snd (on_notification es msg) = Inr () \<and>
   (\<forall>k d. msg = Some \<lparr>operation = ''DELETE'', payload_id = k, payload_data = d\<rparr> \<longrightarrow>
      fst (on_notification es msg) =
        [DeleteDoc k,
         if client_delete es k = None then LogDebug (''Real-time deleted document ID: '' @ k)
         else LogError ''Failed to process real-time update:''])"
  by (auto simp: on_notification_def split: option.splits)

theorem delete_never_raises_witness:
  "snd (on_notification (client_over []) (Some delete_k1)) = Inr () \<and>
   fst (on_notification (client_over []) (Some delete_k1)) =
     [DeleteDoc ''k1'', LogError ''Failed to process real-time update:'']"
  using delete_never_raises [of "client_over []" "Some delete_k1"]
  by (simp add: delete_k1_def client_over_def)

section \<open>Properties of the filter translator\<close>

lemma insured_where:
  "buildWhereClause (Some insured_filter) =
     ([\<lparr>column = ''health_insurance_offered'', op = EQ, param = 1\<rparr>], [VBool True])"
  by (simp add: buildWhereClause_def insured_filter_def no_filter_def push_opt_def push_str_def
      push_range_def push_cond_def)

lemma insured_search:
  "buildElasticSearchQuery (Some insured_filter) None None =
     \<lparr>es_index = ''compensation_data'', es_body_query = BoolMust [],
      es_sort = [(''created_at'', True)], es_from = 0, es_size = 20\<rparr>"
  by (simp add: buildElasticSearchQuery_def insured_filter_def no_filter_def es_must_def
      es_str_def es_range_def page_limit_def page_offset_def num_or_def)

lemma insured_relational_keys:
  "relational_keys two_rows (Some insured_filter) None None = Inr [''k1'']"
  by (simp add: relational_keys_def insured_where relational_page_def buildOrderByClause_def
      page_limit_def page_offset_def num_or_def where_rows_def cond_holds_def two_rows_def
      blank_record_def column_value_def order_by_def)

lemma insured_search_keys:
  "search_keys fuzzy two_rows (Some insured_filter) None None = Inr [''k1'', ''k2'']"
  by (simp add: search_keys_def insured_search search_page_def mapped_fields_def two_rows_def
      blank_record_def order_by_def sort_key_def column_value_def vint_def)

text \<open>
  C2 does not hold of the code. For the filter \<open>{healthInsuranceOffered: true}\<close>, which
  has no text slot, with the default sort and pagination, \<open>buildWhereClause\<close> emits the
  condition \<open>health_insurance_offered = $1\<close> while \<open>buildElasticSearchQuery\<close> emits an
  empty \<open>must\<close> list: over two rows of which only \<open>k1\<close> offers health insurance the
  relational statement selects \<open>k1\<close> and the search request selects both rows, whatever
  the text matcher of the search engine is.
\<close>

theorem translations_select_different_keys:
  "buildWhereClause (Some insured_filter) =
     ([\<lparr>column = ''health_insurance_offered'', op = EQ, param = 1\<rparr>], [VBool True]) \<and>
   es_body_query (buildElasticSearchQuery (Some insured_filter) None None) = BoolMust [] \<and>
   relational_keys two_rows (Some insured_filter) None None = Inr [''k1''] \<and>
   search_keys fuzzy two_rows (Some insured_filter) None None = Inr [''k1'', ''k2'']"
  by (simp add: insured_where insured_search insured_relational_keys insured_search_keys)

section \<open>Properties of the location statistics\<close>

lemma san_francisco_stats:
  "locationStats (Inr san_francisco) None None =
     Inr [\<lparr>ls_location = ''San Francisco'', ls_count = 3, averageSalary = 325000 / 3,
           medianSalary = 110000, minSalary = 9500000, maxSalary = 12000000\<rparr>]"
  by (simp add: locationStats_def buildWhereClause_def location_stats_query_def where_rows_def
      san_francisco_def blank_record_def eligible_def locations_of_def group_row_def
      salaries_at_def percentile_cont_half_def order_by_def to_location_stats_def Let_def)

text \<open>
  C9, as stated, fails on the figure: over the three San Francisco rows the relational
  aggregate reports the count 3 and the average 325000 / 3, which is 108333.33..., more than
  2499 away from the 110833.33 of the claim.
\<close>

theorem location_average_counterexample:
  "locationStats (Inr san_francisco) None None =
     Inr [\<lparr>ls_location = ''San Francisco'', ls_count = 3, averageSalary = 325000 / 3,
           medianSalary = 110000, minSalary = 9500000, maxSalary = 12000000\<rparr>] \<and>
   (325000 / 3 :: rat) \<noteq> 11083333 / 100 \<and>
   \<bar>(325000 / 3 :: rat) - 11083333 / 100\<bar> > 2499"
  by (simp add: san_francisco_stats)

text \<open>
  C9, amended. Over the three San Francisco rows with base pay 12000000, 11000000 and 9500000
  cents, \<open>locationStats\<close> over the relational store reports one entry, for San Francisco,
  with count 3 and average salary (120000 + 110000 + 95000) / 3 currency units, that is
  108333.33 when cut to two decimals.
\<close>

theorem location_stats_san_francisco:
  "locationStats (Inr san_francisco) None None =
     Inr [\<lparr>ls_location = ''San Francisco'', ls_count = 3,
           averageSalary = (120000 + 110000 + 95000) / 3,
           medianSalary = 110000, minSalary = 9500000, maxSalary = 12000000\<rparr>] \<and>
   \<lfloor>((120000 + 110000 + 95000) / 3 :: rat) * 100\<rfloor> = 10833333"
proof -
  have "\<lfloor>(32500000 / 3 :: rat)\<rfloor> = 10833333"
    by (rule floor_unique) simp_all
  then show ?thesis by (simp add: san_francisco_stats)
qed


end
